theory Spec2Isabelle
  imports Main "HOL-Library.Product_Lexorder"
begin

text \<open>
  A model of \<^verbatim>\<open>work.ts\<close>, the work tracker that keeps its items in a table of an embedded
  database and rewrites a line-oriented interchange file, \<^verbatim>\<open>work.jsonl\<close>, after every
  change.  The commands are functions from the state (table and file) to a report and a
  new state; the library functions they rest on (strings, \<^verbatim>\<open>JSON\<close>, the few SQL statements)
  are modelled first.
\<close>

section \<open>JavaScript strings\<close>

text \<open>
  Strings are lists of 8-bit code units.  The special characters of the interchange
  format are named once.
\<close>

definition newline :: char where
  "newline = CHR 0x0A"

definition dquote :: char where
  "dquote = CHR 0x22"

definition backslash :: char where
  "backslash = CHR 0x5C"

text \<open>\<^verbatim>\<open>s.startsWith(p)\<close>\<close>

definition startsWith :: "string \<Rightarrow> string \<Rightarrow> bool" where
  "startsWith s p = (take (length p) s = p)"

text \<open>\<^verbatim>\<open>s.split(c)\<close> for a separator of one character; the empty string splits to one empty piece.\<close>

fun split_on :: "char \<Rightarrow> string \<Rightarrow> string list" where
  "split_on c [] = [[]]"
| "split_on c (x # xs) =
     (if x = c then [] # split_on c xs
      else (case split_on c xs of
              [] \<Rightarrow> [[x]]
            | w # ws \<Rightarrow> (x # w) # ws))"

text \<open>\<^verbatim>\<open>xs.join(sep)\<close>\<close>

fun join :: "string \<Rightarrow> string list \<Rightarrow> string" where
  "join sep [] = []"
| "join sep [x] = x"
| "join sep (x # y # ys) = x @ sep @ join sep (y # ys)"

text \<open>\<^verbatim>\<open>s.padStart(n, c)\<close> with a fill string of one character.\<close>

definition padStart :: "nat \<Rightarrow> char \<Rightarrow> string \<Rightarrow> string" where
  "padStart n c s = replicate (n - length s) c @ s"

text \<open>White space as \<^verbatim>\<open>trim\<close> sees it, among 8-bit code units.\<close>

definition is_space :: "char \<Rightarrow> bool" where
  "is_space c = (c \<in> set [CHR 0x09, CHR 0x0A, CHR 0x0B, CHR 0x0C, CHR 0x0D, CHR 0x20, CHR 0xA0])"

definition trim :: "string \<Rightarrow> string" where
  "trim s = rev (dropWhile is_space (rev (dropWhile is_space s)))"

text \<open>A value is truthy when it is defined and not the empty string.\<close>

definition truthy :: "string option \<Rightarrow> bool" where
  "truthy v = (case v of None \<Rightarrow> False | Some s \<Rightarrow> s \<noteq> [])"

text \<open>\<^verbatim>\<open>args.find((a) => a.startsWith(flag))?.split("=")[1]\<close>\<close>

definition flag_value :: "string \<Rightarrow> string list \<Rightarrow> string option" where
  "flag_value flag args =
     (case find (\<lambda>a. startsWith a flag) args of
        None \<Rightarrow> None
      | Some a \<Rightarrow> (case split_on (CHR ''='') a of
                    _ # v # _ \<Rightarrow> Some v
                  | _ \<Rightarrow> None))"

subsection \<open>Numbers and their numerals\<close>

definition is_digit :: "char \<Rightarrow> bool" where
  "is_digit c = (48 \<le> (of_char c :: nat) \<and> (of_char c :: nat) \<le> 57)"

definition digit_val :: "char \<Rightarrow> nat" where
  "digit_val c = of_char c - 48"

definition digit_char :: "nat \<Rightarrow> char" where
  "digit_char d = char_of (48 + d)"

text \<open>The value of a run of decimal digits, most significant first.\<close>

definition digits_val :: "string \<Rightarrow> nat" where
  "digits_val ds = foldl (\<lambda>acc c. 10 * acc + digit_val c) 0 ds"

fun dec_digits :: "nat \<Rightarrow> string" where
  "dec_digits n = (if n < 10 then [digit_char n] else dec_digits (n div 10) @ [digit_char (n mod 10)])"

declare dec_digits.simps [simp del]

text \<open>
  \<^verbatim>\<open>String(n)\<close> for an integral number.  Numbers are modelled as integers; JavaScript's
  doubles agree with them, and print like this, up to \<open>2 ^ 53\<close>.
\<close>

definition String_of :: "int \<Rightarrow> string" where
  "String_of n = (if n < 0 then CHR ''-'' # dec_digits (nat (- n)) else dec_digits (nat n))"

definition hex_val :: "char \<Rightarrow> nat option" where
  "hex_val c =
     (if is_digit c then Some (digit_val c)
      else if 97 \<le> (of_char c :: nat) \<and> (of_char c :: nat) \<le> 102 then Some (of_char c - 87)
      else if 65 \<le> (of_char c :: nat) \<and> (of_char c :: nat) \<le> 70 then Some (of_char c - 55)
      else None)"

definition is_hex :: "char \<Rightarrow> bool" where
  "is_hex c = (hex_val c \<noteq> None)"

definition hex_digits_val :: "string \<Rightarrow> nat" where
  "hex_digits_val ds = foldl (\<lambda>acc c. 16 * acc + (case hex_val c of None \<Rightarrow> 0 | Some d \<Rightarrow> d)) 0 ds"

definition strip_sign :: "string \<Rightarrow> bool \<times> string" where
  "strip_sign s =
     (case s of
        [] \<Rightarrow> (False, [])
      | c # r \<Rightarrow> if c = CHR ''-'' then (True, r) else if c = CHR ''+'' then (False, r) else (False, s))"

definition signed :: "bool \<Rightarrow> nat \<Rightarrow> int" where
  "signed neg n = (if neg then - int n else int n)"

text \<open>\<^verbatim>\<open>parseInt(s, 10)\<close>; \<open>None\<close> is \<^verbatim>\<open>NaN\<close>.\<close>

definition parseInt10 :: "string \<Rightarrow> int option" where
  "parseInt10 s =
     (let (neg, r) = strip_sign (dropWhile is_space s);
          ds = takeWhile is_digit r
      in if ds = [] then None else Some (signed neg (digits_val ds)))"

text \<open>\<^verbatim>\<open>parseInt(s)\<close>: without a radix, a prefix \<^verbatim>\<open>0x\<close> selects base sixteen.\<close>

definition parseInt :: "string \<Rightarrow> int option" where
  "parseInt s =
     (let (neg, r) = strip_sign (dropWhile is_space s)
      in if startsWith r ''0x'' \<or> startsWith r ''0X''
         then (let hs = takeWhile is_hex (drop 2 r)
               in if hs = [] then None else Some (signed neg (hex_digits_val hs)))
         else (let ds = takeWhile is_digit r
               in if ds = [] then None else Some (signed neg (digits_val ds))))"

section \<open>JSON\<close>

text \<open>
  The values \<^verbatim>\<open>JSON.stringify\<close> and \<^verbatim>\<open>JSON.parse\<close> exchange.  An object is the list of its
  properties in insertion order.  Numbers are integral; a numeral with a fraction or an
  exponent is outside the model and is refused by the parser.
\<close>

datatype json =
    JNull
  | JBool bool
  | JNum int
  | JStr string
  | JArr "json list"
  | JObj "(string \<times> json) list"

subsection \<open>\<^verbatim>\<open>JSON.stringify\<close>\<close>

definition hex_char :: "nat \<Rightarrow> char" where
  "hex_char d = (if d < 10 then char_of (48 + d) else char_of (87 + d))"

text \<open>
  One code unit inside a string literal: the short escapes, \<^verbatim>\<open>\u00XX\<close> for the other
  control characters, everything else as it is.
\<close>

definition quote_char :: "char \<Rightarrow> string" where
  "quote_char c =
     (if c = dquote then [backslash, dquote]
      else if c = backslash then [backslash, backslash]
      else if c = CHR 0x08 then [backslash, CHR ''b'']
      else if c = CHR 0x09 then [backslash, CHR ''t'']
      else if c = CHR 0x0A then [backslash, CHR ''n'']
      else if c = CHR 0x0C then [backslash, CHR ''f'']
      else if c = CHR 0x0D then [backslash, CHR ''r'']
      else if (of_char c :: nat) < 32
        then [backslash, CHR ''u'', CHR ''0'', CHR ''0'',
              hex_char (of_char c div 16), hex_char (of_char c mod 16)]
      else [c])"

definition quote :: "string \<Rightarrow> string" where
  "quote s = dquote # concat (map quote_char s) @ [dquote]"

fun JSON_stringify :: "json \<Rightarrow> string" where
  "JSON_stringify JNull = ''null''"
| "JSON_stringify (JBool b) = (if b then ''true'' else ''false'')"
| "JSON_stringify (JNum n) = String_of n"
| "JSON_stringify (JStr s) = quote s"
| "JSON_stringify (JArr vs) = ''['' @ join '','' (map JSON_stringify vs) @ '']''"
| "JSON_stringify (JObj kvs) =
     ''{'' @ join '','' (map (\<lambda>(k, v). quote k @ '':'' @ JSON_stringify v) kvs) @ ''}''"

subsection \<open>\<^verbatim>\<open>JSON.parse\<close>\<close>

definition is_json_ws :: "char \<Rightarrow> bool" where
  "is_json_ws c = (c \<in> set [CHR 0x20, CHR 0x09, CHR 0x0A, CHR 0x0D])"

definition skip_ws :: "string \<Rightarrow> string" where
  "skip_ws s = dropWhile is_json_ws s"

definition unescape :: "char \<Rightarrow> char option" where
  "unescape e =
     (if e = dquote then Some dquote
      else if e = backslash then Some backslash
      else if e = CHR ''/'' then Some (CHR ''/'')
      else if e = CHR ''b'' then Some (CHR 0x08)
      else if e = CHR ''t'' then Some (CHR 0x09)
      else if e = CHR ''n'' then Some (CHR 0x0A)
      else if e = CHR ''f'' then Some (CHR 0x0C)
      else if e = CHR ''r'' then Some (CHR 0x0D)
      else None)"

definition hex4 :: "char \<Rightarrow> char \<Rightarrow> char \<Rightarrow> char \<Rightarrow> nat option" where
  "hex4 a b c d =
     (case (hex_val a, hex_val b, hex_val c, hex_val d) of
        (Some x, Some y, Some z, Some w) \<Rightarrow> Some (((x * 16 + y) * 16 + z) * 16 + w)
      | _ \<Rightarrow> None)"

text \<open>
  The rest of a string literal after its opening quote: the string denoted and the input
  after the closing quote.  A raw control character is a syntax error; so is, in this
  model of 8-bit code units, an escape \<^verbatim>\<open>\uXXXX\<close> beyond \<open>0x00FF\<close>.
\<close>

fun parse_string_body :: "string \<Rightarrow> (string \<times> string) option" where
  "parse_string_body [] = None"
| "parse_string_body (c # cs) =
     (if c = dquote then Some ([], cs)
      else if c = backslash then
        (case cs of
           [] \<Rightarrow> None
         | e # cs' \<Rightarrow>
             if e = CHR ''u'' then
               (case cs' of
                  h1 # h2 # h3 # h4 # cs'' \<Rightarrow>
                    (case hex4 h1 h2 h3 h4 of
                       None \<Rightarrow> None
                     | Some n \<Rightarrow>
                         if n < 256 then
                           (case parse_string_body cs'' of
                              None \<Rightarrow> None
                            | Some (str, r) \<Rightarrow> Some (char_of n # str, r))
                         else None)
                | _ \<Rightarrow> None)
             else
               (case unescape e of
                  None \<Rightarrow> None
                | Some ch \<Rightarrow>
                    (case parse_string_body cs' of
                       None \<Rightarrow> None
                     | Some (str, r) \<Rightarrow> Some (ch # str, r))))
      else if (of_char c :: nat) < 32 then None
      else (case parse_string_body cs of
              None \<Rightarrow> None
            | Some (str, r) \<Rightarrow> Some (c # str, r)))"

text \<open>
  A number: an optional minus sign and decimal digits without a leading zero.  A fraction
  or an exponent after them is refused (see above).
\<close>

definition parse_number :: "string \<Rightarrow> (json \<times> string) option" where
  "parse_number s =
     (let (neg, r) = (case s of [] \<Rightarrow> (False, [])
                      | c # t \<Rightarrow> if c = CHR ''-'' then (True, t) else (False, s));
          ds = takeWhile is_digit r;
          rest = dropWhile is_digit r
      in if ds = [] then None
         else if 1 < length ds \<and> hd ds = CHR ''0'' then None
         else if startsWith rest ''.'' \<or> startsWith rest ''e'' \<or> startsWith rest ''E'' then None
         else Some (JNum (signed neg (digits_val ds)), rest))"

text \<open>
  The recursive descent, with the nesting depth bounded by a counter: \<open>parse_value\<close> reads
  one value, \<open>parse_elements\<close> the elements of a non-empty array up to its closing bracket,
  \<open>parse_members\<close> the members of a non-empty object up to its closing brace.
\<close>

fun parse_value :: "nat \<Rightarrow> string \<Rightarrow> (json \<times> string) option"
  and parse_elements :: "nat \<Rightarrow> string \<Rightarrow> (json list \<times> string) option"
  and parse_members :: "nat \<Rightarrow> string \<Rightarrow> ((string \<times> json) list \<times> string) option"
where
  "parse_value 0 s = None"
| "parse_value (Suc n) s =
     (case skip_ws s of
        [] \<Rightarrow> None
      | c # r \<Rightarrow>
          if c = dquote then
            (case parse_string_body r of
               None \<Rightarrow> None
             | Some (str, r') \<Rightarrow> Some (JStr str, r'))
          else if c = CHR ''['' then
            (if startsWith (skip_ws r) '']'' then Some (JArr [], drop 1 (skip_ws r))
             else (case parse_elements n r of
                     None \<Rightarrow> None
                   | Some (vs, r') \<Rightarrow> Some (JArr vs, r')))
          else if c = CHR ''{'' then
            (if startsWith (skip_ws r) ''}'' then Some (JObj [], drop 1 (skip_ws r))
             else (case parse_members n r of
                     None \<Rightarrow> None
                   | Some (kvs, r') \<Rightarrow> Some (JObj kvs, r')))
          else if startsWith (c # r) ''null'' then Some (JNull, drop 4 (c # r))
          else if startsWith (c # r) ''true'' then Some (JBool True, drop 4 (c # r))
          else if startsWith (c # r) ''false'' then Some (JBool False, drop 5 (c # r))
          else parse_number (c # r))"
| "parse_elements 0 s = None"
| "parse_elements (Suc n) s =
     (case parse_value n s of
        None \<Rightarrow> None
      | Some (v, r) \<Rightarrow>
          (case skip_ws r of
             [] \<Rightarrow> None
           | c # r' \<Rightarrow>
               if c = CHR '','' then
                 (case parse_elements n r' of
                    None \<Rightarrow> None
                  | Some (vs, r'') \<Rightarrow> Some (v # vs, r''))
               else if c = CHR '']'' then Some ([v], r')
               else None))"
| "parse_members 0 s = None"
| "parse_members (Suc n) s =
     (case skip_ws s of
        [] \<Rightarrow> None
      | c # r \<Rightarrow>
          if c \<noteq> dquote then None
          else
            (case parse_string_body r of
               None \<Rightarrow> None
             | Some (k, r1) \<Rightarrow>
                 (case skip_ws r1 of
                    [] \<Rightarrow> None
                  | c1 # r2 \<Rightarrow>
                      if c1 \<noteq> CHR '':'' then None
                      else
                        (case parse_value n r2 of
                           None \<Rightarrow> None
                         | Some (v, r3) \<Rightarrow>
                             (case skip_ws r3 of
                                [] \<Rightarrow> None
                              | c3 # r4 \<Rightarrow>
                                  if c3 = CHR '','' then
                                    (case parse_members n r4 of
                                       None \<Rightarrow> None
                                     | Some (kvs, r5) \<Rightarrow> Some ((k, v) # kvs, r5))
                                  else if c3 = CHR ''}'' then Some ([(k, v)], r4)
                                  else None)))))"

text \<open>
  \<^verbatim>\<open>JSON.parse(s)\<close>; \<open>None\<close> is the \<^verbatim>\<open>SyntaxError\<close> it throws.  The whole input must be
  one value, white space around it apart.  The depth counter starts above the length of
  the input, which no nesting can exceed.
\<close>

definition JSON_parse :: "string \<Rightarrow> json option" where
  "JSON_parse s =
     (case parse_value (Suc (length s)) s of
        None \<Rightarrow> None
      | Some (v, r) \<Rightarrow> if skip_ws r = [] then Some v else None)"

section \<open>Work items\<close>

record LogEntry =
  entry_time :: string
  entry_agent :: "string option"
  entry_text :: string

text \<open>
  The interface \<^verbatim>\<open>WorkItem\<close>.  An optional property that is \<^verbatim>\<open>undefined\<close> is \<open>None\<close>.
  \<open>status\<close> and \<open>wtype\<close> are strings, as the table stores them: nothing checks them
  against the declared unions.
\<close>

record WorkItem =
  wid :: string
  title :: string
  status :: string
  priority :: int
  wtype :: string
  created :: string
  updated :: string
  description :: "string option"
  blocked_by :: "string list option"
  labels :: "string list option"
  closed_reason :: "string option"
  wlog :: "LogEntry list option"

subsection \<open>A work item as a JSON object\<close>

definition opt_prop :: "string \<Rightarrow> 'a option \<Rightarrow> ('a \<Rightarrow> json) \<Rightarrow> (string \<times> json) list" where
  "opt_prop k v f = (case v of None \<Rightarrow> [] | Some x \<Rightarrow> [(k, f x)])"

definition LogEntry_json :: "LogEntry \<Rightarrow> json" where
  "LogEntry_json e =
     JObj ([(''time'', JStr (entry_time e)), (''text'', JStr (entry_text e))]
           @ opt_prop ''agent'' (entry_agent e) JStr)"

text \<open>
  The object \<open>rowToWorkItem\<close> builds, with its properties in the order of the object
  literal; \<^verbatim>\<open>JSON.stringify\<close> leaves out the undefined ones.
\<close>

definition WorkItem_json :: "WorkItem \<Rightarrow> json" where
  "WorkItem_json i =
     JObj ([(''id'', JStr (wid i)),
            (''title'', JStr (title i)),
            (''status'', JStr (status i)),
            (''priority'', JNum (priority i)),
            (''type'', JStr (wtype i)),
            (''created'', JStr (created i)),
            (''updated'', JStr (updated i))]
           @ opt_prop ''description'' (description i) JStr
           @ opt_prop ''blocked_by'' (blocked_by i) (\<lambda>xs. JArr (map JStr xs))
           @ opt_prop ''labels'' (labels i) (\<lambda>xs. JArr (map JStr xs))
           @ opt_prop ''closed_reason'' (closed_reason i) JStr
           @ opt_prop ''log'' (wlog i) (\<lambda>es. JArr (map LogEntry_json es)))"

text \<open>
  Reading a parsed object at the type \<^verbatim>\<open>WorkItem\<close>.  \<open>get_prop\<close> is property access (the last
  of several equal keys wins, absent is \<^verbatim>\<open>undefined\<close>).  \<open>as_WorkItem\<close> gives \<open>None\<close> for an
  object that does not have the declared type; an optional property may be absent or
  \<^verbatim>\<open>null\<close>, other properties are ignored.
\<close>

definition get_prop :: "json \<Rightarrow> string \<Rightarrow> json option" where
  "get_prop j k = (case j of JObj kvs \<Rightarrow> map_of (rev kvs) k | _ \<Rightarrow> None)"

definition req_string :: "json option \<Rightarrow> string option" where
  "req_string v = (case v of Some (JStr s) \<Rightarrow> Some s | _ \<Rightarrow> None)"

definition req_int :: "json option \<Rightarrow> int option" where
  "req_int v = (case v of Some (JNum n) \<Rightarrow> Some n | _ \<Rightarrow> None)"

definition opt_string :: "json option \<Rightarrow> string option option" where
  "opt_string v =
     (case v of
        None \<Rightarrow> Some None
      | Some JNull \<Rightarrow> Some None
      | Some (JStr s) \<Rightarrow> Some (Some s)
      | _ \<Rightarrow> None)"

fun those_list :: "'a option list \<Rightarrow> 'a list option" where
  "those_list [] = Some []"
| "those_list (x # xs) =
     (case x of
        None \<Rightarrow> None
      | Some y \<Rightarrow> (case those_list xs of None \<Rightarrow> None | Some ys \<Rightarrow> Some (y # ys)))"

definition opt_array :: "(json \<Rightarrow> 'a option) \<Rightarrow> json option \<Rightarrow> 'a list option option" where
  "opt_array f v =
     (case v of
        None \<Rightarrow> Some None
      | Some JNull \<Rightarrow> Some None
      | Some (JArr xs) \<Rightarrow> (case those_list (map f xs) of None \<Rightarrow> None | Some ys \<Rightarrow> Some (Some ys))
      | _ \<Rightarrow> None)"

definition as_LogEntry :: "json \<Rightarrow> LogEntry option" where
  "as_LogEntry j =
     Option.bind (req_string (get_prop j ''time'')) (\<lambda>t.
     Option.bind (opt_string (get_prop j ''agent'')) (\<lambda>a.
     Option.bind (req_string (get_prop j ''text'')) (\<lambda>x.
     Some \<lparr>entry_time = t, entry_agent = a, entry_text = x\<rparr>)))"

definition as_WorkItem :: "json \<Rightarrow> WorkItem option" where
  "as_WorkItem j =
     Option.bind (req_string (get_prop j ''id'')) (\<lambda>i.
     Option.bind (req_string (get_prop j ''title'')) (\<lambda>t.
     Option.bind (req_string (get_prop j ''status'')) (\<lambda>st.
     Option.bind (req_int (get_prop j ''priority'')) (\<lambda>p.
     Option.bind (req_string (get_prop j ''type'')) (\<lambda>ty.
     Option.bind (req_string (get_prop j ''created'')) (\<lambda>c.
     Option.bind (req_string (get_prop j ''updated'')) (\<lambda>u.
     Option.bind (opt_string (get_prop j ''description'')) (\<lambda>d.
     Option.bind (opt_array (\<lambda>x. req_string (Some x)) (get_prop j ''blocked_by'')) (\<lambda>b.
     Option.bind (opt_array (\<lambda>x. req_string (Some x)) (get_prop j ''labels'')) (\<lambda>l.
     Option.bind (opt_string (get_prop j ''closed_reason'')) (\<lambda>cr.
     Option.bind (opt_array as_LogEntry (get_prop j ''log'')) (\<lambda>lg.
     Some \<lparr>wid = i, title = t, status = st, priority = p, wtype = ty, created = c,
           updated = u, description = d, blocked_by = b, labels = l,
           closed_reason = cr, wlog = lg\<rparr>))))))))))))"

section \<open>The table \<^verbatim>\<open>work\<close>\<close>

text \<open>
  A row of the table.  The columns \<^verbatim>\<open>blocked_by\<close>, \<^verbatim>\<open>labels\<close> and \<^verbatim>\<open>log\<close> hold the JSON text
  of an array; the model keeps the array (of strings, of log entries) that this text
  denotes.  \<open>None\<close> is \<^verbatim>\<open>NULL\<close>.  The table is the list of its rows in insertion order,
  and \<^verbatim>\<open>id\<close> is its primary key.
\<close>

record Row =
  row_id :: string
  row_title :: string
  row_status :: string
  row_priority :: int
  row_type :: string
  row_created :: string
  row_updated :: string
  row_description :: "string option"
  row_blocked_by :: "string list option"
  row_labels :: "string list option"
  row_closed_reason :: "string option"
  row_log :: "LogEntry list option"

text \<open>
  \<^verbatim>\<open>CAST(id AS INTEGER)\<close> on text: leading white space is skipped, the longest prefix that
  reads as a signed decimal integer is taken (0 when there is none), and a value beyond
  64 bits is replaced by the nearest 64-bit integer.
\<close>

definition is_sql_space :: "char \<Rightarrow> bool" where
  "is_sql_space c = (c \<in> set [CHR 0x09, CHR 0x0A, CHR 0x0B, CHR 0x0C, CHR 0x0D, CHR 0x20])"

definition cast_integer :: "string \<Rightarrow> int" where
  "cast_integer s =
     (let (neg, r) = strip_sign (dropWhile is_sql_space s);
          v = signed neg (digits_val (takeWhile is_digit r))
      in max (- (2 ^ 63)) (min (2 ^ 63 - 1) v))"

text \<open>\<^verbatim>\<open>SELECT * FROM work WHERE id = ?\<close>\<close>

definition select_by_id :: "Row list \<Rightarrow> string \<Rightarrow> Row option" where
  "select_by_id tbl i = find (\<lambda>r. row_id r = i) tbl"

text \<open>\<^verbatim>\<open>UPDATE work SET ... WHERE id = ?\<close>\<close>

definition update_by_id :: "string \<Rightarrow> (Row \<Rightarrow> Row) \<Rightarrow> Row list \<Rightarrow> Row list" where
  "update_by_id i f tbl = map (\<lambda>r. if row_id r = i then f r else r) tbl"

text \<open>\<^verbatim>\<open>INSERT INTO work\<close>; \<open>None\<close> when the primary key is taken, and the statement throws.\<close>

definition insert_row :: "Row \<Rightarrow> Row list \<Rightarrow> Row list option" where
  "insert_row r tbl = (if row_id r \<in> set (map row_id tbl) then None else Some (tbl @ [r]))"

text \<open>\<^verbatim>\<open>ORDER BY CAST(id AS INTEGER)\<close> and \<^verbatim>\<open>ORDER BY priority, CAST(id AS INTEGER)\<close>; rows with equal keys stay in table order.\<close>

definition order_by_id :: "Row list \<Rightarrow> Row list" where
  "order_by_id rows = sort_key (\<lambda>r. cast_integer (row_id r)) rows"

definition order_by_priority_id :: "Row list \<Rightarrow> Row list" where
  "order_by_priority_id rows = sort_key (\<lambda>r. (row_priority r, cast_integer (row_id r))) rows"

text \<open>\<^verbatim>\<open>MAX(...)\<close> over the rows; \<open>None\<close> (\<^verbatim>\<open>NULL\<close>) for no rows.\<close>

fun sql_max :: "int list \<Rightarrow> int option" where
  "sql_max [] = None"
| "sql_max (x # xs) = (case sql_max xs of None \<Rightarrow> Some x | Some m \<Rightarrow> Some (max x m))"

definition rowToWorkItem :: "Row \<Rightarrow> WorkItem" where
  "rowToWorkItem row =
     \<lparr>wid = row_id row,
      title = row_title row,
      status = row_status row,
      priority = row_priority row,
      wtype = row_type row,
      created = row_created row,
      updated = row_updated row,
      description = (if truthy (row_description row) then row_description row else None),
      blocked_by = row_blocked_by row,
      labels = row_labels row,
      closed_reason = (if truthy (row_closed_reason row) then row_closed_reason row else None),
      wlog = row_log row\<rparr>"

section \<open>The program state and what a command reports\<close>

text \<open>
  The directory \<^verbatim>\<open>.work\<close> is taken to exist.  The state is the table of \<^verbatim>\<open>work.db\<close> and the
  contents of \<^verbatim>\<open>work.jsonl\<close>, \<open>None\<close> when that file is absent.
\<close>

record State =
  table :: "Row list"
  work_jsonl :: "string option"

text \<open>
  A failure is a message on the error stream with exit status 1, or an exception that
  nothing catches: \<open>JsonSyntaxError\<close> from \<^verbatim>\<open>JSON.parse\<close>, \<open>SqliteError\<close> from a statement that
  violates a constraint of the table.  \<open>IllTypedRecord\<close> marks a line of the interchange
  file that is JSON but not a \<^verbatim>\<open>WorkItem\<close>; what the program does with such a line is
  outside the model.
\<close>

datatype error =
    UsageError
  | NotFoundError string
  | UnknownFieldError string
  | UnknownCommandError string
  | NoJsonlFileError
  | JsonSyntaxError
  | SqliteError
  | IllTypedRecord

datatype notice =
    AlreadyInitialized
  | Created string string
  | NoWorkItemsFound
  | Listing "WorkItem list"
  | Shown WorkItem
  | Started string string
  | Closed string string
  | Reopened string string
  | Logged string
  | AlreadyBlocked string string
  | NowBlocked string string
  | NotBlocked string string
  | Unblocked string string
  | NoReadyItems
  | ReadyItems "WorkItem list"
  | NoBlockedItems
  | BlockedItems "(WorkItem \<times> string list) list"
  | Updated string
  | NoItemsToImport
  | Imported nat
  | Exported
  | Help

type_synonym result = "(error + notice) \<times> State"

section \<open>Export and identifiers\<close>

text \<open>The text \<open>exportToJsonl\<close> writes for a list of items.\<close>

definition jsonl_of :: "WorkItem list \<Rightarrow> string" where
  "jsonl_of items =
     (let content = join [newline] (map (\<lambda>i. JSON_stringify (WorkItem_json i)) items)
      in if content \<noteq> [] then content @ [newline] else [])"

definition exportToJsonl :: "State \<Rightarrow> State" where
  "exportToJsonl s =
     (let rows = order_by_id (table s);
          items = map rowToWorkItem rows
      in s\<lparr>work_jsonl := Some (jsonl_of items)\<rparr>)"

definition nextId :: "Row list \<Rightarrow> string" where
  "nextId tbl =
     (let maxId = (case sql_max (map (\<lambda>r. cast_integer (row_id r)) tbl) of
                     None \<Rightarrow> 0
                   | Some m \<Rightarrow> if m = 0 then 0 else m)
      in padStart 3 (CHR ''0'') (String_of (maxId + 1)))"

definition padId :: "string \<Rightarrow> string" where
  "padId i = padStart 3 (CHR ''0'') i"

text \<open>\<^verbatim>\<open>args[0]\<close>, \<^verbatim>\<open>args[1]\<close>: \<open>None\<close> is \<^verbatim>\<open>undefined\<close>.\<close>

definition arg0 :: "string list \<Rightarrow> string option" where
  "arg0 args = (case args of [] \<Rightarrow> None | a # _ \<Rightarrow> Some a)"

definition arg1 :: "string list \<Rightarrow> string option" where
  "arg1 args = (case args of _ # b # _ \<Rightarrow> Some b | _ \<Rightarrow> None)"

section \<open>Commands\<close>

text \<open>
  Each command takes the reading of the clock, its arguments and the state, and gives
  what it reports and the state it leaves.  A command that fails leaves through
  \<^verbatim>\<open>process.exit(1)\<close> or an uncaught exception.
\<close>

definition cmd_init :: "State \<Rightarrow> result" where
  "cmd_init s = (Inr AlreadyInitialized, s)"

definition cmd_add :: "string \<Rightarrow> string list \<Rightarrow> State \<Rightarrow> result" where
  "cmd_add now args s =
     (let typeFlag = flag_value ''--type='' args;
          priorityFlag = flag_value ''--priority='' args;
          titleParts = filter (\<lambda>a. \<not> startsWith a ''--'') args;
          ttl = join '' '' titleParts
      in if ttl = [] then (Inl UsageError, s)
         else
           (let i = nextId (table s);
                prio = (case priorityFlag of
                          None \<Rightarrow> Some 2
                        | Some pf \<Rightarrow> if pf = [] then Some 2 else parseInt pf);
                ty = (case typeFlag of
                        None \<Rightarrow> ''task''
                      | Some tf \<Rightarrow> if tf = [] then ''task'' else tf)
            in case prio of
                 None \<Rightarrow> (Inl SqliteError, s)
               | Some p \<Rightarrow>
                   (case insert_row
                           \<lparr>row_id = i, row_title = ttl, row_status = ''open'', row_priority = p,
                            row_type = ty, row_created = now, row_updated = now,
                            row_description = None, row_blocked_by = None, row_labels = None,
                            row_closed_reason = None, row_log = None\<rparr>
                           (table s) of
                      None \<Rightarrow> (Inl SqliteError, s)
                    | Some tbl \<Rightarrow> (Inr (Created i ttl), exportToJsonl (s\<lparr>table := tbl\<rparr>)))))"

text \<open>The rows \<open>list\<close> selects: one status when \<^verbatim>\<open>--status=\<close> names it, else every status but closed.\<close>

definition list_rows :: "string list \<Rightarrow> Row list \<Rightarrow> Row list" where
  "list_rows args tbl =
     (let statusFilter = flag_value ''--status='' args
      in order_by_priority_id
           (if truthy statusFilter then filter (\<lambda>r. Some (row_status r) = statusFilter) tbl
            else filter (\<lambda>r. row_status r \<noteq> ''closed'') tbl))"

definition cmd_list :: "string list \<Rightarrow> State \<Rightarrow> result" where
  "cmd_list args s =
     (let rows = list_rows args (table s)
      in if rows = [] then (Inr NoWorkItemsFound, s)
         else (Inr (Listing (map rowToWorkItem rows)), s))"

definition cmd_show :: "string list \<Rightarrow> State \<Rightarrow> result" where
  "cmd_show args s =
     (case arg0 args of
        None \<Rightarrow> (Inl UsageError, s)
      | Some i \<Rightarrow>
          if i = [] then (Inl UsageError, s)
          else (case select_by_id (table s) (padId i) of
                  None \<Rightarrow> (Inl (NotFoundError i), s)
                | Some row \<Rightarrow> (Inr (Shown (rowToWorkItem row)), s)))"

definition cmd_start :: "string \<Rightarrow> string list \<Rightarrow> State \<Rightarrow> result" where
  "cmd_start now args s =
     (case arg0 args of
        None \<Rightarrow> (Inl UsageError, s)
      | Some i \<Rightarrow>
          if i = [] then (Inl UsageError, s)
          else (case select_by_id (table s) (padId i) of
                  None \<Rightarrow> (Inl (NotFoundError i), s)
                | Some row \<Rightarrow>
                    (Inr (Started (padId i) (row_title row)),
                     exportToJsonl
                       (s\<lparr>table := update_by_id (padId i)
                            (\<lambda>r. r\<lparr>row_status := ''in_progress'', row_updated := now\<rparr>)
                            (table s)\<rparr>))))"

definition cmd_close :: "string \<Rightarrow> string list \<Rightarrow> State \<Rightarrow> result" where
  "cmd_close now args s =
     (case arg0 args of
        None \<Rightarrow> (Inl UsageError, s)
      | Some i \<Rightarrow>
          if i = [] then (Inl UsageError, s)
          else (case select_by_id (table s) (padId i) of
                  None \<Rightarrow> (Inl (NotFoundError i), s)
                | Some row \<Rightarrow>
                    (let reason = (if 1 < length args then Some (join '' '' (drop 1 args)) else None)
                     in (Inr (Closed (padId i) (row_title row)),
                         exportToJsonl
                           (s\<lparr>table := update_by_id (padId i)
                                (\<lambda>r. r\<lparr>row_status := ''closed'', row_updated := now,
                                        row_closed_reason := reason\<rparr>)
                                (table s)\<rparr>)))))"

definition cmd_reopen :: "string \<Rightarrow> string list \<Rightarrow> State \<Rightarrow> result" where
  "cmd_reopen now args s =
     (case arg0 args of
        None \<Rightarrow> (Inl UsageError, s)
      | Some i \<Rightarrow>
          if i = [] then (Inl UsageError, s)
          else (case select_by_id (table s) (padId i) of
                  None \<Rightarrow> (Inl (NotFoundError i), s)
                | Some row \<Rightarrow>
                    (Inr (Reopened (padId i) (row_title row)),
                     exportToJsonl
                       (s\<lparr>table := update_by_id (padId i)
                            (\<lambda>r. r\<lparr>row_status := ''open'', row_updated := now,
                                    row_closed_reason := None\<rparr>)
                            (table s)\<rparr>))))"

text \<open>The two readings of the clock in \<open>log\<close> are taken to be the same.\<close>

definition cmd_log :: "string \<Rightarrow> string list \<Rightarrow> State \<Rightarrow> result" where
  "cmd_log now args s =
     (let agentFlag = flag_value ''--agent='' args;
          textParts = filter (\<lambda>a. \<not> startsWith a ''--'') (drop 1 args);
          message = join '' '' textParts
      in case arg0 args of
           None \<Rightarrow> (Inl UsageError, s)
         | Some i \<Rightarrow>
             if i = [] \<or> message = [] then (Inl UsageError, s)
             else (case select_by_id (table s) (padId i) of
                     None \<Rightarrow> (Inl (NotFoundError i), s)
                   | Some row \<Rightarrow>
                       (let entry = \<lparr>entry_time = now,
                                     entry_agent = (if truthy agentFlag then agentFlag else None),
                                     entry_text = message\<rparr>;
                            existingLog = (case row_log row of None \<Rightarrow> [] | Some es \<Rightarrow> es)
                        in (Inr (Logged (padId i)),
                            exportToJsonl
                              (s\<lparr>table := update_by_id (padId i)
                                   (\<lambda>r. r\<lparr>row_log := Some (existingLog @ [entry]),
                                           row_updated := now\<rparr>)
                                   (table s)\<rparr>)))))"

definition cmd_block :: "string \<Rightarrow> string list \<Rightarrow> State \<Rightarrow> result" where
  "cmd_block now args s =
     (case (arg0 args, arg1 args) of
        (Some i, Some blockerId) \<Rightarrow>
          if i = [] \<or> blockerId = [] then (Inl UsageError, s)
          else (case select_by_id (table s) (padId i) of
                  None \<Rightarrow> (Inl (NotFoundError i), s)
                | Some row \<Rightarrow>
                    (case select_by_id (table s) (padId blockerId) of
                       None \<Rightarrow> (Inl (NotFoundError blockerId), s)
                     | Some blockerRow \<Rightarrow>
                         (let blockedBy = (case row_blocked_by row of None \<Rightarrow> [] | Some bs \<Rightarrow> bs);
                              paddedBlockerId = padId blockerId
                          in if paddedBlockerId \<in> set blockedBy
                             then (Inr (AlreadyBlocked (padId i) paddedBlockerId), s)
                             else (Inr (NowBlocked (padId i) paddedBlockerId),
                                   exportToJsonl
                                     (s\<lparr>table := update_by_id (padId i)
                                          (\<lambda>r. r\<lparr>row_blocked_by := Some (blockedBy @ [paddedBlockerId]),
                                                  row_updated := now\<rparr>)
                                          (table s)\<rparr>)))))
      | _ \<Rightarrow> (Inl UsageError, s))"

definition cmd_unblock :: "string \<Rightarrow> string list \<Rightarrow> State \<Rightarrow> result" where
  "cmd_unblock now args s =
     (case (arg0 args, arg1 args) of
        (Some i, Some blockerId) \<Rightarrow>
          if i = [] \<or> blockerId = [] then (Inl UsageError, s)
          else (case select_by_id (table s) (padId i) of
                  None \<Rightarrow> (Inl (NotFoundError i), s)
                | Some row \<Rightarrow>
                    (let blockedBy = (case row_blocked_by row of None \<Rightarrow> [] | Some bs \<Rightarrow> bs);
                         paddedBlockerId = padId blockerId
                     in if paddedBlockerId \<notin> set blockedBy
                        then (Inr (NotBlocked (padId i) paddedBlockerId), s)
                        else (let remaining = remove1 paddedBlockerId blockedBy
                              in (Inr (Unblocked paddedBlockerId (padId i)),
                                  exportToJsonl
                                    (s\<lparr>table := update_by_id (padId i)
                                         (\<lambda>r. r\<lparr>row_blocked_by :=
                                                   (if remaining \<noteq> [] then Some remaining else None),
                                                 row_updated := now\<rparr>)
                                         (table s)\<rparr>)))))
      | _ \<Rightarrow> (Inl UsageError, s))"

text \<open>The identifiers of the closed rows, \<^verbatim>\<open>closedIds\<close>.\<close>

definition closedIds :: "Row list \<Rightarrow> string set" where
  "closedIds tbl = set (map row_id (filter (\<lambda>r. row_status r = ''closed'') tbl))"

text \<open>\<^verbatim>\<open>!item.blocked_by?.length\<close>\<close>

definition no_blockers :: "WorkItem \<Rightarrow> bool" where
  "no_blockers item = (case blocked_by item of None \<Rightarrow> True | Some bs \<Rightarrow> bs = [])"

definition blockers :: "WorkItem \<Rightarrow> string list" where
  "blockers item = (case blocked_by item of None \<Rightarrow> [] | Some bs \<Rightarrow> bs)"

definition ready_items :: "Row list \<Rightarrow> WorkItem list" where
  "ready_items tbl =
     (let rows = order_by_priority_id (filter (\<lambda>r. row_status r \<noteq> ''closed'') tbl);
          closed = closedIds tbl
      in filter (\<lambda>item. if no_blockers item then True
                        else list_all (\<lambda>blockerId. blockerId \<in> closed) (blockers item))
           (map rowToWorkItem rows))"

definition cmd_ready :: "State \<Rightarrow> result" where
  "cmd_ready s =
     (let readyItems = ready_items (table s)
      in if readyItems = [] then (Inr NoReadyItems, s) else (Inr (ReadyItems readyItems), s))"

text \<open>The blocked items, each with the blockers \<open>blocked\<close> prints for it.\<close>

definition blocked_items :: "Row list \<Rightarrow> (WorkItem \<times> string list) list" where
  "blocked_items tbl =
     (let rows = order_by_priority_id
                   (filter (\<lambda>r. row_status r \<noteq> ''closed'' \<and> row_blocked_by r \<noteq> None) tbl);
          closed = closedIds tbl;
          blockedItems =
            filter (\<lambda>item. if no_blockers item then False
                           else list_ex (\<lambda>blockerId. blockerId \<notin> closed) (blockers item))
              (map rowToWorkItem rows)
      in map (\<lambda>item. (item, filter (\<lambda>b. b \<notin> closed) (blockers item))) blockedItems)"

definition cmd_blocked :: "State \<Rightarrow> result" where
  "cmd_blocked s =
     (let blockedItems = blocked_items (table s)
      in if blockedItems = [] then (Inr NoBlockedItems, s) else (Inr (BlockedItems blockedItems), s))"

definition validFields :: "string list" where
  "validFields = [''title'', ''priority'', ''type'', ''description'']"

text \<open>
  The assignment \<^verbatim>\<open>SET ${field} = ?\<close> for each valid field.  A priority that \<^verbatim>\<open>parseInt\<close>
  cannot read is \<^verbatim>\<open>NaN\<close>, which the column (\<^verbatim>\<open>NOT NULL\<close>) refuses: \<open>None\<close>.
\<close>

definition set_field :: "string \<Rightarrow> string \<Rightarrow> (Row \<Rightarrow> Row) option" where
  "set_field field v =
     (if field = ''title'' then Some (\<lambda>r. r\<lparr>row_title := v\<rparr>)
      else if field = ''priority'' then
        (case parseInt10 v of None \<Rightarrow> None | Some p \<Rightarrow> Some (\<lambda>r. r\<lparr>row_priority := p\<rparr>))
      else if field = ''type'' then Some (\<lambda>r. r\<lparr>row_type := v\<rparr>)
      else if field = ''description'' then Some (\<lambda>r. r\<lparr>row_description := Some v\<rparr>)
      else None)"

definition cmd_edit :: "string \<Rightarrow> string list \<Rightarrow> State \<Rightarrow> result" where
  "cmd_edit now args s =
     (let v = join '' '' (drop 2 args)
      in case (arg0 args, arg1 args) of
           (Some i, Some field) \<Rightarrow>
             if i = [] \<or> field = [] \<or> v = [] then (Inl UsageError, s)
             else (case select_by_id (table s) (padId i) of
                     None \<Rightarrow> (Inl (NotFoundError i), s)
                   | Some row \<Rightarrow>
                       if field \<notin> set validFields then (Inl (UnknownFieldError field), s)
                       else (case set_field field v of
                               None \<Rightarrow> (Inl SqliteError, s)
                             | Some assign \<Rightarrow>
                                 (Inr (Updated (padId i)),
                                  exportToJsonl
                                    (s\<lparr>table := update_by_id (padId i)
                                         (\<lambda>r. (assign r)\<lparr>row_updated := now\<rparr>)
                                         (table s)\<rparr>))))
         | _ \<Rightarrow> (Inl UsageError, s))"

subsection \<open>Import and export\<close>

text \<open>
  Line 544 of \<open>import\<close>: every line of the trimmed text goes through \<^verbatim>\<open>JSON.parse\<close> before
  anything else happens, and the results are used at the type \<^verbatim>\<open>WorkItem\<close>.
\<close>

definition parse_lines :: "string \<Rightarrow> error + WorkItem list" where
  "parse_lines content =
     (case those_list (map JSON_parse (split_on newline content)) of
        None \<Rightarrow> Inl JsonSyntaxError
      | Some objects \<Rightarrow>
          (case those_list (map as_WorkItem objects) of
             None \<Rightarrow> Inl IllTypedRecord
           | Some items \<Rightarrow> Inr items))"

text \<open>
  The items \<open>import\<close> reads from the text of the interchange file (lines 538 to 544):
  none when the trimmed text is empty.
\<close>

definition decode_jsonl :: "string \<Rightarrow> error + WorkItem list" where
  "decode_jsonl raw =
     (let content = trim raw
      in if content = [] then Inr [] else parse_lines content)"

text \<open>The parameters \<open>import\<close> binds for one item.\<close>

definition import_row :: "WorkItem \<Rightarrow> Row" where
  "import_row item =
     \<lparr>row_id = wid item,
      row_title = title item,
      row_status = status item,
      row_priority = priority item,
      row_type = wtype item,
      row_created = created item,
      row_updated = updated item,
      row_description = (if truthy (description item) then description item else None),
      row_blocked_by = blocked_by item,
      row_labels = labels item,
      row_closed_reason = (if truthy (closed_reason item) then closed_reason item else None),
      row_log = wlog item\<rparr>"

text \<open>
  The loop of insertions, each statement committed on its own.  It stops at the first
  one that throws, with the rows inserted so far in the table.
\<close>

fun insert_items :: "WorkItem list \<Rightarrow> Row list \<Rightarrow> error option \<times> Row list" where
  "insert_items [] tbl = (None, tbl)"
| "insert_items (item # items) tbl =
     (case insert_row (import_row item) tbl of
        None \<Rightarrow> (Some SqliteError, tbl)
      | Some tbl' \<Rightarrow> insert_items items tbl')"

definition cmd_import :: "State \<Rightarrow> result" where
  "cmd_import s =
     (case work_jsonl s of
        None \<Rightarrow> (Inl NoJsonlFileError, s)
      | Some raw \<Rightarrow>
          (let content = trim raw
           in if content = [] then (Inr NoItemsToImport, s)
              else (case parse_lines content of
                      Inl e \<Rightarrow> (Inl e, s)
                    | Inr items \<Rightarrow>
                        (case insert_items items [] of
                           (Some e, tbl) \<Rightarrow> (Inl e, s\<lparr>table := tbl\<rparr>)
                         | (None, tbl) \<Rightarrow> (Inr (Imported (length items)), s\<lparr>table := tbl\<rparr>)))))"

definition cmd_export :: "State \<Rightarrow> result" where
  "cmd_export s = (Inr Exported, exportToJsonl s)"

subsection \<open>Dispatch\<close>

text \<open>
  The main program: the first word of the command line selects an entry of \<^verbatim>\<open>commands\<close>,
  by its own property names.
\<close>

definition run :: "string \<Rightarrow> string list \<Rightarrow> State \<Rightarrow> result" where
  "run now argv s =
     (case argv of
        [] \<Rightarrow> (Inr Help, s)
      | cmd # args \<Rightarrow>
          if cmd = [] \<or> cmd = ''help'' \<or> cmd = ''--help'' \<or> cmd = ''-h'' then (Inr Help, s)
          else if cmd = ''init'' then cmd_init s
          else if cmd = ''add'' then cmd_add now args s
          else if cmd = ''list'' then cmd_list args s
          else if cmd = ''show'' then cmd_show args s
          else if cmd = ''start'' then cmd_start now args s
          else if cmd = ''close'' then cmd_close now args s
          else if cmd = ''reopen'' then cmd_reopen now args s
          else if cmd = ''log'' then cmd_log now args s
          else if cmd = ''block'' then cmd_block now args s
          else if cmd = ''unblock'' then cmd_unblock now args s
          else if cmd = ''ready'' then cmd_ready s
          else if cmd = ''blocked'' then cmd_blocked s
          else if cmd = ''edit'' then cmd_edit now args s
          else if cmd = ''import'' then cmd_import s
          else if cmd = ''export'' then cmd_export s
          else (Inl (UnknownCommandError cmd), s))"

section \<open>Notions used in the properties\<close>

text \<open>
  The interchange file agrees with the table when it decodes to the items of the table in
  the order of their numeric identifiers.
\<close>

definition consistent :: "State \<Rightarrow> bool" where
  "consistent s =
     (case work_jsonl s of
        None \<Rightarrow> False
      | Some raw \<Rightarrow> decode_jsonl raw = Inr (map rowToWorkItem (order_by_id (table s))))"

text \<open>The notices of \<open>block\<close> and \<open>unblock\<close> that report that nothing had to be done.\<close>

definition changes_nothing :: "notice \<Rightarrow> bool" where
  "changes_nothing n = (case n of AlreadyBlocked a b \<Rightarrow> True | NotBlocked a b \<Rightarrow> True | _ \<Rightarrow> False)"


text \<open>
  What may follow a value inside JSON text, the text of one member of an object, and the
  line of the interchange file for one item.
\<close>

definition delimited :: "string \<Rightarrow> bool" where
  "delimited rest = (rest = [] \<or> hd rest \<in> set '',]}'')"

definition member_text :: "string \<times> json \<Rightarrow> string" where
  "member_text kv = quote (fst kv) @ '':'' @ JSON_stringify (snd kv)"

definition line_of :: "WorkItem \<Rightarrow> string" where
  "line_of i = JSON_stringify (WorkItem_json i)"

section \<open>Example states\<close>

text \<open>
  A table of four items (the second blocked by the first, the fourth closed) with its
  export, and interchange files that are empty, absent, out of order, repeating an
  identifier, and cut off in the middle of a record.
\<close>

definition example_row :: "string \<Rightarrow> string \<Rightarrow> int \<Rightarrow> string \<Rightarrow> Row" where
  "example_row i st p ty =
     \<lparr>row_id = i, row_title = ''Task'', row_status = st, row_priority = p, row_type = ty,
      row_created = ''2025-01-04T12:00:00.000Z'', row_updated = ''2025-01-04T12:00:00.000Z'',
      row_description = None, row_blocked_by = None, row_labels = None,
      row_closed_reason = None, row_log = None\<rparr>"

definition example_table :: "Row list" where
  "example_table =
     [example_row ''001'' ''open'' 2 ''task'',
      (example_row ''002'' ''open'' 2 ''task'')\<lparr>row_blocked_by := Some [''001'']\<rparr>,
      example_row ''003'' ''open'' 0 ''feature'',
      (example_row ''004'' ''closed'' 2 ''task'')\<lparr>row_closed_reason := Some ''Done''\<rparr>]"

definition example_state :: State where
  "example_state = \<lparr>table = example_table, work_jsonl = Some (jsonl_of (map rowToWorkItem example_table))\<rparr>"

definition blank_file_state :: State where
  "blank_file_state = \<lparr>table = example_table, work_jsonl = Some []\<rparr>"

definition absent_file_state :: State where
  "absent_file_state = \<lparr>table = example_table, work_jsonl = None\<rparr>"

definition out_of_order_jsonl :: string where
  \<open>out_of_order_jsonl =
     ''{"id":"002","title":"Task","status":"open","priority":2,"type":"task","created":"2025-01-04T12:00:00.000Z","updated":"2025-01-04T12:00:00.000Z"}'' @ [newline] @
     ''{"id":"001","title":"Task","status":"open","priority":2,"type":"task","created":"2025-01-04T12:00:00.000Z","updated":"2025-01-04T12:00:00.000Z"}'' @ [newline]\<close>

definition out_of_order_state :: State where
  "out_of_order_state = \<lparr>table = [], work_jsonl = Some out_of_order_jsonl\<rparr>"




section \<open>Decimal numerals\<close>

lemma char_eq_nat: "(c = d) = ((of_char c :: nat) = of_char d)"
  by simp

lemma digit_char_props:
  assumes "d < 10"
  shows "is_digit (digit_char d)" and "digit_val (digit_char d) = d"
    and "(of_char (digit_char d) :: nat) = 48 + d"
  using assms by (simp_all add: is_digit_def digit_val_def digit_char_def)

lemma digits_val_snoc: "digits_val (ds @ [c]) = 10 * digits_val ds + digit_val c"
  by (simp add: digits_val_def)

lemma dec_digits_nonempty: "dec_digits n \<noteq> []"
  by (subst dec_digits.simps) simp

lemma dec_digits_all_digits: "c \<in> set (dec_digits n) \<Longrightarrow> is_digit c"
proof (induction n arbitrary: c rule: dec_digits.induct)
  case (1 n)
  show ?case
  proof (cases "n < 10")
    case True
    with "1.prems" show ?thesis
      by (subst (asm) dec_digits.simps) (simp add: digit_char_props)
  next
    case False
    with "1.prems" "1.IH" show ?thesis
      by (subst (asm) dec_digits.simps) (auto simp: digit_char_props)
  qed
qed

lemma digits_val_dec_digits: "digits_val (dec_digits n) = n"
proof (induction n rule: dec_digits.induct)
  case (1 n)
  show ?case
  proof (cases "n < 10")
    case True
    then show ?thesis
      by (subst dec_digits.simps) (simp add: digits_val_def digit_char_props)
  next
    case False
    with "1.IH" show ?thesis
      by (subst dec_digits.simps) (simp add: digits_val_snoc digit_char_props)
  qed
qed

lemma hd_dec_digits: "hd (dec_digits n) = CHR ''0'' \<Longrightarrow> n = 0"
proof (induction n rule: dec_digits.induct)
  case (1 n)
  show ?case
  proof (cases "n < 10")
    case True
    with "1.prems" have "digit_char n = CHR ''0''"
      by (subst (asm) dec_digits.simps) simp
    then have "(of_char (digit_char n) :: nat) = 48"
      by simp
    with True show ?thesis
      by (simp add: digit_char_props)
  next
    case False
    with "1.prems" have "hd (dec_digits (n div 10)) = CHR ''0''"
      by (subst (asm) dec_digits.simps) (simp add: dec_digits_nonempty)
    with False "1.IH" have "n div 10 = 0" by simp
    with False show ?thesis by simp
  qed
qed

lemma length_dec_digits: "(1 < length (dec_digits n)) = (10 \<le> n)"
proof (cases "n < 10")
  case True
  then show ?thesis by (subst dec_digits.simps) simp
next
  case False
  have "length (dec_digits (n div 10)) \<noteq> 0"
    using dec_digits_nonempty by simp
  with False show ?thesis by (subst dec_digits.simps) simp
qed

lemma takeWhile_digits:
  assumes "\<forall>c\<in>set ds. is_digit c" and "rest = [] \<or> \<not> is_digit (hd rest)"
  shows "takeWhile is_digit (ds @ rest) = ds" and "dropWhile is_digit (ds @ rest) = rest"
  using assms by (cases rest; simp add: takeWhile_append2 dropWhile_append2)+

section \<open>Parsing what \<^verbatim>\<open>JSON.stringify\<close> writes\<close>

subsection \<open>String literals\<close>

lemma hex_val_hex_char: "d < 16 \<Longrightarrow> hex_val (hex_char d) = Some d"
  by (auto simp: hex_val_def hex_char_def is_digit_def digit_val_def)

lemma hex4_control:
  assumes "n < 32"
  shows "hex4 (CHR ''0'') (CHR ''0'') (hex_char (n div 16)) (hex_char (n mod 16)) = Some n"
proof -
  have z: "hex_val (CHR ''0'') = Some 0"
    by (simp add: hex_val_def is_digit_def digit_val_def)
  have "n div 16 < 16" using assms by simp
  then have a: "hex_val (hex_char (n div 16)) = Some (n div 16)"
    by (rule hex_val_hex_char)
  have b: "hex_val (hex_char (n mod 16)) = Some (n mod 16)"
    by (rule hex_val_hex_char) simp
  show ?thesis
    by (simp add: hex4_def z a b)
qed

lemma parse_string_body_quote_char:
  "parse_string_body (quote_char c @ tail) =
     (case parse_string_body tail of None \<Rightarrow> None | Some (str, r) \<Rightarrow> Some (c # str, r))"
proof -
  consider (dq) "c = dquote" | (bs) "c = backslash" | (b) "c = CHR 0x08" | (t) "c = CHR 0x09"
    | (n) "c = CHR 0x0A" | (f) "c = CHR 0x0C" | (r) "c = CHR 0x0D"
    | (ctl) "c \<noteq> dquote" "c \<noteq> backslash" "c \<noteq> CHR 0x08" "c \<noteq> CHR 0x09" "c \<noteq> CHR 0x0A"
        "c \<noteq> CHR 0x0C" "c \<noteq> CHR 0x0D" "(of_char c :: nat) < 32"
    | (lit) "c \<noteq> dquote" "c \<noteq> backslash" "\<not> (of_char c :: nat) < 32"
    by (cases "(of_char c :: nat) < 32") auto
  then show ?thesis
  proof cases
    case dq
    then show ?thesis
      by (simp add: quote_char_def dquote_def backslash_def unescape_def split: option.splits)
  next
    case bs
    then show ?thesis
      by (simp add: quote_char_def dquote_def backslash_def unescape_def split: option.splits)
  next
    case b
    then show ?thesis
      by (simp add: quote_char_def dquote_def backslash_def unescape_def split: option.splits)
  next
    case t
    then show ?thesis
      by (simp add: quote_char_def dquote_def backslash_def unescape_def split: option.splits)
  next
    case n
    then show ?thesis
      by (simp add: quote_char_def dquote_def backslash_def unescape_def split: option.splits)
  next
    case f
    then show ?thesis
      by (simp add: quote_char_def dquote_def backslash_def unescape_def split: option.splits)
  next
    case r
    then show ?thesis
      by (simp add: quote_char_def dquote_def backslash_def unescape_def split: option.splits)
  next
    case ctl
    have q: "quote_char c = [backslash, CHR ''u'', CHR ''0'', CHR ''0'',
              hex_char (of_char c div 16), hex_char (of_char c mod 16)]"
      using ctl by (simp add: quote_char_def)
    show ?thesis
      unfolding q using ctl(8)
      by (simp add: dquote_def backslash_def hex4_control split: option.splits)
  next
    case lit
    then have q: "quote_char c = [c]"
      by (auto simp: quote_char_def dquote_def backslash_def)
    show ?thesis
      unfolding q using lit by (simp split: option.splits)
  qed
qed

lemma parse_string_body_quoted:
  "parse_string_body (concat (map quote_char s) @ dquote # rest) = Some (s, rest)"
  by (induction s) (simp_all add: parse_string_body_quote_char)

subsection \<open>Numbers and literals\<close>

lemma delimited_simps [simp]:
  "delimited []" "delimited (CHR '','' # s)" "delimited (CHR '']'' # s)" "delimited (CHR ''}'' # s)"
  by (simp_all add: delimited_def)

lemma delimited_not_digit: "delimited rest \<Longrightarrow> rest = [] \<or> \<not> is_digit (hd rest)"
  by (auto simp: delimited_def is_digit_def)

lemma delimited_not_fraction:
  "delimited rest \<Longrightarrow> \<not> startsWith rest ''.'' \<and> \<not> startsWith rest ''e'' \<and> \<not> startsWith rest ''E''"
  by (cases rest) (auto simp: delimited_def startsWith_def)

lemma startsWith_Cons [simp]: "startsWith (c # s) (d # p) = (c = d \<and> startsWith s p)"
  by (simp add: startsWith_def)

lemma startsWith_Nil [simp]: "startsWith s []" "\<not> startsWith [] (d # p)"
  by (simp_all add: startsWith_def)

lemma skip_ws_Cons: "\<not> is_json_ws c \<Longrightarrow> skip_ws (c # s) = c # s"
  by (simp add: skip_ws_def)

lemma is_digit_not_special:
  assumes "is_digit c"
  shows "c \<noteq> CHR ''-''" "c \<noteq> dquote" "c \<noteq> CHR ''[''" "c \<noteq> CHR ''{''" "c \<noteq> CHR ''n''"
    "c \<noteq> CHR ''t''" "c \<noteq> CHR ''f''" "\<not> is_json_ws c" "c \<noteq> CHR '']''"
  using assms by (auto simp: is_digit_def dquote_def is_json_ws_def)

lemma parse_number_digits:
  assumes "delimited rest" and "ds \<noteq> []" and "\<forall>c\<in>set ds. is_digit c"
    and "\<not> (1 < length ds \<and> hd ds = CHR ''0'')"
  shows "parse_number (ds @ rest) = Some (JNum (int (digits_val ds)), rest)"
    and "parse_number (CHR ''-'' # ds @ rest) = Some (JNum (- int (digits_val ds)), rest)"
proof -
  have tw: "takeWhile is_digit (ds @ rest) = ds"
    and dw: "dropWhile is_digit (ds @ rest) = rest"
    using takeWhile_digits [OF assms(3) delimited_not_digit [OF assms(1)]] by blast+
  obtain c t where ct: "ds = c # t"
    using assms(2) by (cases ds) auto
  then have "c \<noteq> CHR ''-''"
    using assms(3) is_digit_not_special(1) by simp
  then have sgn: "(case ds @ rest of [] \<Rightarrow> (False, [])
            | c # t \<Rightarrow> if c = CHR ''-'' then (True, t) else (False, ds @ rest)) = (False, ds @ rest)"
    by (simp add: ct)
  show "parse_number (ds @ rest) = Some (JNum (int (digits_val ds)), rest)"
    unfolding parse_number_def sgn
    using assms(2,4) delimited_not_fraction [OF assms(1)]
    by (simp add: tw dw signed_def)
  show "parse_number (CHR ''-'' # ds @ rest) = Some (JNum (- int (digits_val ds)), rest)"
    unfolding parse_number_def
    using assms(2,4) delimited_not_fraction [OF assms(1)]
    by (simp add: tw dw signed_def)
qed

lemma dec_digits_no_leading_zero:
  "\<not> (1 < length (dec_digits k) \<and> hd (dec_digits k) = CHR ''0'')"
  using hd_dec_digits [of k] length_dec_digits [of k] by auto

lemma parse_number_String_of:
  assumes "delimited rest"
  shows "parse_number (String_of n @ rest) = Some (JNum n, rest)"
proof -
  have dig: "\<forall>c\<in>set (dec_digits k). is_digit c" for k
    using dec_digits_all_digits by blast
  show ?thesis
  proof (cases "n < 0")
    case False
    then show ?thesis
      using parse_number_digits(1) [OF assms dec_digits_nonempty dig dec_digits_no_leading_zero, of "nat n"]
      by (simp add: String_of_def digits_val_dec_digits)
  next
    case True
    then show ?thesis
      using parse_number_digits(2) [OF assms dec_digits_nonempty dig dec_digits_no_leading_zero, of "nat (- n)"]
      by (simp add: String_of_def digits_val_dec_digits)
  qed
qed

lemma String_of_first:
  "\<exists>c t. String_of n = c # t \<and> (c = CHR ''-'' \<or> is_digit c)"
proof (cases "n < 0")
  case True
  then show ?thesis by (simp add: String_of_def)
next
  case False
  obtain c t where ct: "dec_digits (nat n) = c # t"
    using dec_digits_nonempty [of "nat n"] by (cases "dec_digits (nat n)") auto
  then have "is_digit c"
    using dec_digits_all_digits [of c "nat n"] by simp
  with ct False show ?thesis by (simp add: String_of_def)
qed

lemma minus_not_special:
  "CHR ''-'' \<noteq> dquote" "CHR ''-'' \<noteq> CHR ''[''" "CHR ''-'' \<noteq> CHR ''{''" "CHR ''-'' \<noteq> CHR ''n''"
  "CHR ''-'' \<noteq> CHR ''t''" "CHR ''-'' \<noteq> CHR ''f''" "\<not> is_json_ws (CHR ''-'')"
  by (simp_all add: dquote_def is_json_ws_def)

lemma parse_value_dispatch_number:
  assumes "\<not> is_json_ws c" "c \<noteq> dquote" "c \<noteq> CHR ''[''" "c \<noteq> CHR ''{''"
    "c \<noteq> CHR ''n''" "c \<noteq> CHR ''t''" "c \<noteq> CHR ''f''"
  shows "parse_value (Suc m) (c # s) = parse_number (c # s)"
  using assms by (simp add: skip_ws_Cons)

lemma parse_value_JNum:
  assumes "delimited rest"
  shows "parse_value (Suc m) (String_of n @ rest) = Some (JNum n, rest)"
proof -
  obtain c t where ct: "String_of n = c # t" and c: "c = CHR ''-'' \<or> is_digit c"
    using String_of_first by blast
  have "parse_value (Suc m) (c # t @ rest) = parse_number (c # t @ rest)"
  proof (cases "c = CHR ''-''")
    case True
    show ?thesis
      unfolding True by (rule parse_value_dispatch_number) (rule minus_not_special)+
  next
    case False
    with c have d: "is_digit c" by simp
    show ?thesis
      by (rule parse_value_dispatch_number) (rule is_digit_not_special [OF d])+
  qed
  then show ?thesis
    using parse_number_String_of [OF assms, of n] by (simp add: ct)
qed

lemma dquote_not_ws: "\<not> is_json_ws dquote"
  by (simp add: is_json_ws_def dquote_def)

lemma parse_value_JStr:
  "parse_value (Suc m) (quote s @ rest) = Some (JStr s, rest)"
  by (simp add: quote_def skip_ws_Cons dquote_not_ws parse_string_body_quoted)

lemma letters_not_ws:
  "\<not> is_json_ws (CHR ''n'')" "\<not> is_json_ws (CHR ''t'')" "\<not> is_json_ws (CHR ''f'')"
  "\<not> is_json_ws (CHR ''['')" "\<not> is_json_ws (CHR ''{'')"
  by (simp_all add: is_json_ws_def)

lemma parse_value_JNull: "parse_value (Suc m) (''null'' @ rest) = Some (JNull, rest)"
  by (simp add: skip_ws_Cons letters_not_ws dquote_def)

lemma parse_value_JTrue: "parse_value (Suc m) (''true'' @ rest) = Some (JBool True, rest)"
  by (simp add: skip_ws_Cons letters_not_ws dquote_def)

lemma parse_value_JFalse: "parse_value (Suc m) (''false'' @ rest) = Some (JBool False, rest)"
  by (simp add: skip_ws_Cons letters_not_ws dquote_def)

subsection \<open>Arrays and objects\<close>

lemma punct_not_ws:
  "\<not> is_json_ws (CHR '','')" "\<not> is_json_ws (CHR '']'')" "\<not> is_json_ws (CHR ''}'')"
  "\<not> is_json_ws (CHR '':'')"
  by (simp_all add: is_json_ws_def)

lemma JSON_stringify_first:
  "\<exists>c t. JSON_stringify v = c # t \<and> \<not> is_json_ws c \<and> c \<noteq> CHR '']'' \<and> c \<noteq> CHR ''}''"
proof (cases v)
  case (JNum n)
  obtain c t where ct: "String_of n = c # t" and c: "c = CHR ''-'' \<or> is_digit c"
    using String_of_first by blast
  from c have "\<not> is_json_ws c \<and> c \<noteq> CHR '']'' \<and> c \<noteq> CHR ''}''"
    by (auto simp: is_digit_def is_json_ws_def)
  with ct JNum show ?thesis by simp
next
  case (JStr s)
  then show ?thesis
    by (simp add: quote_def dquote_not_ws) (simp add: dquote_def)
qed (simp_all add: letters_not_ws)

lemma length_JSON_stringify_pos: "0 < length (JSON_stringify v)"
  using JSON_stringify_first [of v] by auto

lemma parse_elements_join:
  assumes "\<And>v n rest. v \<in> set vs \<Longrightarrow> length (JSON_stringify v) \<le> n \<Longrightarrow> delimited rest \<Longrightarrow>
             parse_value n (JSON_stringify v @ rest) = Some (v, rest)"
    and "vs \<noteq> []"
    and "length (join '','' (map JSON_stringify vs)) < n"
  shows "parse_elements n (join '','' (map JSON_stringify vs) @ CHR '']'' # rest) = Some (vs, rest)"
  using assms
proof (induction vs arbitrary: n)
  case Nil
  then show ?case by simp
next
  case (Cons v vs)
  from Cons.prems(3) obtain m where n: "n = Suc m"
    by (cases n) auto
  show ?case
  proof (cases vs)
    case Nil
    have len: "length (JSON_stringify v) \<le> m"
      using Cons.prems(3) n Nil by simp
    have "parse_value m (JSON_stringify v @ CHR '']'' # rest) = Some (v, CHR '']'' # rest)"
      by (rule Cons.prems(1) [OF _ len]) simp_all
    then show ?thesis
      by (simp add: n Nil skip_ws_Cons punct_not_ws)
  next
    case (Cons w ws)
    let ?tail = "join '','' (map JSON_stringify (w # ws))"
    have total: "length (JSON_stringify v) + 1 + length ?tail < Suc m"
      using Cons.prems(3) n Cons by simp
    then have len: "length (JSON_stringify v) \<le> m"
      by simp
    have tail: "length ?tail < m"
      using total length_JSON_stringify_pos [of v] by simp
    have hd: "parse_value m (JSON_stringify v @ CHR '','' # ?tail @ CHR '']'' # rest) =
            Some (v, CHR '','' # ?tail @ CHR '']'' # rest)"
      by (rule Cons.prems(1) [OF _ len]) simp_all
    have tl: "parse_elements m (?tail @ CHR '']'' # rest) = Some (w # ws, rest)"
      using Cons.IH [of m] Cons.prems(1) tail unfolding Cons by simp
    show ?thesis
      using hd tl by (simp add: n Cons skip_ws_Cons punct_not_ws)
  qed
qed

lemma member_text_eq: "(\<lambda>(k, v). quote k @ '':'' @ JSON_stringify v) = member_text"
  by (auto simp: member_text_def fun_eq_iff)

lemma JSON_stringify_JObj:
  "JSON_stringify (JObj kvs) = CHR ''{'' # join '','' (map member_text kvs) @ ''}''"
proof -
  have m: "map (\<lambda>(k, v). quote k @ '':'' @ JSON_stringify v) kvs = map member_text kvs"
    by (auto simp: member_text_def)
  show ?thesis
    unfolding JSON_stringify.simps m by simp
qed

lemma parse_member_key:
  "parse_string_body (tl (member_text (k, v)) @ rest) = Some (k, CHR '':'' # JSON_stringify v @ rest)"
  using parse_string_body_quoted [of k "CHR '':'' # JSON_stringify v @ rest"]
  by (simp add: member_text_def quote_def)

lemma member_text_Cons: "member_text kv = dquote # tl (member_text kv)"
  by (simp add: member_text_def quote_def)

lemma length_member_text: "length (JSON_stringify (snd kv)) + 3 \<le> length (member_text kv)"
  by (simp add: member_text_def quote_def)

lemma parse_members_step:
  assumes "parse_value m (JSON_stringify v @ after) = Some (v, after)"
  shows "parse_members (Suc m) (member_text (k, v) @ after) =
     (case skip_ws after of
        [] \<Rightarrow> None
      | c3 # r4 \<Rightarrow>
          if c3 = CHR '','' then
            (case parse_members m r4 of
               None \<Rightarrow> None
             | Some (kvs, r5) \<Rightarrow> Some ((k, v) # kvs, r5))
          else if c3 = CHR ''}'' then Some ([(k, v)], r4)
          else None)"
proof -
  have "parse_members (Suc m) (dquote # (tl (member_text (k, v)) @ after)) =
     (case skip_ws after of
        [] \<Rightarrow> None
      | c3 # r4 \<Rightarrow>
          if c3 = CHR '','' then
            (case parse_members m r4 of
               None \<Rightarrow> None
             | Some (kvs, r5) \<Rightarrow> Some ((k, v) # kvs, r5))
          else if c3 = CHR ''}'' then Some ([(k, v)], r4)
          else None)"
    by (simp add: skip_ws_Cons dquote_not_ws punct_not_ws parse_member_key assms)
  then show ?thesis
    by (subst member_text_Cons) simp
qed

lemma parse_members_join:
  assumes "\<And>k v n rest. (k, v) \<in> set kvs \<Longrightarrow> length (JSON_stringify v) \<le> n \<Longrightarrow> delimited rest \<Longrightarrow>
             parse_value n (JSON_stringify v @ rest) = Some (v, rest)"
    and "kvs \<noteq> []"
    and "length (join '','' (map member_text kvs)) < n"
  shows "parse_members n (join '','' (map member_text kvs) @ CHR ''}'' # rest) = Some (kvs, rest)"
  using assms
proof (induction kvs arbitrary: n)
  case Nil
  then show ?case by simp
next
  case (Cons kv kvs)
  obtain k v where kv: "kv = (k, v)"
    by (cases kv)
  from Cons.prems(3) obtain m where n: "n = Suc m"
    by (cases n) auto
  show ?case
  proof (cases kvs)
    case Nil
    have len: "length (JSON_stringify v) \<le> m"
      using Cons.prems(3) n Nil length_member_text [of kv] by (simp add: kv)
    have "parse_value m (JSON_stringify v @ CHR ''}'' # rest) = Some (v, CHR ''}'' # rest)"
      by (rule Cons.prems(1) [of k v, OF _ len]) (simp_all add: kv)
    from parse_members_step [OF this, of k] show ?thesis
      by (simp add: n Nil kv skip_ws_Cons punct_not_ws)
  next
    case more: (Cons kw kws)
    let ?tail = "join '','' (map member_text kvs)"
    have total: "length (member_text kv) + 1 + length ?tail < Suc m"
      using Cons.prems(3) n more by simp
    then have len: "length (JSON_stringify v) \<le> m"
      using length_member_text [of kv] by (simp add: kv)
    have tail: "length ?tail < m"
      using total length_member_text [of kv] by simp
    have hd: "parse_value m (JSON_stringify v @ CHR '','' # ?tail @ CHR ''}'' # rest) =
            Some (v, CHR '','' # ?tail @ CHR ''}'' # rest)"
      by (rule Cons.prems(1) [of k v, OF _ len]) (simp_all add: kv)
    have tl: "parse_members m (?tail @ CHR ''}'' # rest) = Some (kvs, rest)"
    proof (rule Cons.IH)
      show "kvs \<noteq> []" using more by simp
      show "length ?tail < m" by (rule tail)
      show "parse_value n' (JSON_stringify v' @ rest') = Some (v', rest')"
        if "(k', v') \<in> set kvs" "length (JSON_stringify v') \<le> n'" "delimited rest'"
        for k' v' n' rest'
        using Cons.prems(1) [of k' v' n' rest'] that by simp
    qed
    from parse_members_step [OF hd, of k] show ?thesis
      using tl by (simp add: n more kv skip_ws_Cons punct_not_ws)
  qed
qed

lemma parse_value_JSON_stringify:
  "length (JSON_stringify v) \<le> n \<Longrightarrow> delimited rest \<Longrightarrow>
   parse_value n (JSON_stringify v @ rest) = Some (v, rest)"
proof (induction v arbitrary: n rest)
  case JNull
  then obtain m where "n = Suc m"
    by (cases n) auto
  then show ?case by (simp add: parse_value_JNull [simplified])
next
  case (JBool b)
  then obtain m where "n = Suc m"
    using length_JSON_stringify_pos [of "JBool b"] by (cases n) auto
  then show ?case
    by (cases b) (simp_all add: parse_value_JTrue [simplified] parse_value_JFalse [simplified])
next
  case (JNum i)
  then obtain m where "n = Suc m"
    using length_JSON_stringify_pos [of "JNum i"] by (cases n) auto
  with JNum show ?case by (simp add: parse_value_JNum del: parse_value.simps)
next
  case (JStr s)
  then obtain m where "n = Suc m"
    using length_JSON_stringify_pos [of "JStr s"] by (cases n) auto
  then show ?case by (simp add: parse_value_JStr del: parse_value.simps)
next
  case (JArr vs)
  from JArr.prems(1) obtain m where n: "n = Suc m" by (cases n) auto
  show ?case
  proof (cases "vs = []")
    case True
    then show ?thesis
      by (simp add: n skip_ws_Cons letters_not_ws punct_not_ws dquote_def)
  next
    case False
    let ?body = "join '','' (map JSON_stringify vs)"
    obtain v ws where vs: "vs = v # ws"
      using False by (cases vs) auto
    obtain c t where ct: "JSON_stringify v = c # t" and c: "\<not> is_json_ws c" "c \<noteq> CHR '']''"
      using JSON_stringify_first by blast
    have "\<exists>t'. ?body = c # t'"
      by (cases ws) (simp_all add: vs ct)
    then obtain t' where body: "?body = c # t'" by blast
    have len: "length ?body < m"
      using JArr.prems(1) n by simp
    have elems: "parse_elements m (?body @ CHR '']'' # rest) = Some (vs, rest)"
      using JArr.IH False len by (intro parse_elements_join) simp_all
    have "parse_value (Suc m) (CHR ''['' # (c # t') @ CHR '']'' # rest) = Some (JArr vs, rest)"
      using elems c unfolding body
      by (simp add: skip_ws_Cons letters_not_ws dquote_def)
    then show ?thesis
      by (simp add: n body)
  qed
next
  case (JObj kvs)
  from JObj.prems(1) obtain m where n: "n = Suc m" by (cases n) auto
  show ?case
  proof (cases "kvs = []")
    case True
    then show ?thesis
      by (simp add: n skip_ws_Cons letters_not_ws punct_not_ws dquote_def)
  next
    case False
    let ?body = "join '','' (map member_text kvs)"
    obtain kv kws where kvs: "kvs = kv # kws"
      using False by (cases kvs) auto
    have "\<exists>t'. ?body = dquote # t'"
      by (cases kws) (simp_all add: kvs member_text_def quote_def)
    then obtain t' where body: "?body = dquote # t'" by blast
    have len: "length ?body < m"
      using JObj.prems(1) n by (simp add: JSON_stringify_JObj del: JSON_stringify.simps)
    have ih: "parse_value n' (JSON_stringify v @ rest') = Some (v, rest')"
      if "(k, v) \<in> set kvs" "length (JSON_stringify v) \<le> n'" "delimited rest'" for k v n' rest'
      using JObj.IH [of "(k, v)" v n' rest'] that by simp
    have membs: "parse_members m (?body @ CHR ''}'' # rest) = Some (kvs, rest)"
      using ih False len by (intro parse_members_join) blast+
    have "parse_value (Suc m) (CHR ''{'' # (dquote # t') @ CHR ''}'' # rest) = Some (JObj kvs, rest)"
      using membs unfolding body
      by (simp add: skip_ws_Cons letters_not_ws dquote_not_ws) (simp add: dquote_def)
    then show ?thesis
      by (simp add: n body JSON_stringify_JObj del: JSON_stringify.simps)
  qed
qed

lemma JSON_parse_JSON_stringify: "JSON_parse (JSON_stringify v) = Some v"
  using parse_value_JSON_stringify [of v "Suc (length (JSON_stringify v))" "[]"]
  by (simp add: JSON_parse_def skip_ws_def)

subsection \<open>Work items\<close>

lemma those_list_map_Some:
  "(\<And>x. x \<in> set xs \<Longrightarrow> f (g x) = Some x) \<Longrightarrow> those_list (map (f \<circ> g) xs) = Some xs"
  by (induction xs) simp_all

lemma as_LogEntry_LogEntry_json: "as_LogEntry (LogEntry_json e) = Some e"
  by (cases "entry_agent e")
    (simp_all add: as_LogEntry_def LogEntry_json_def get_prop_def opt_prop_def req_string_def
      opt_string_def)

lemma opt_array_strings:
  "opt_array (\<lambda>x. req_string (Some x)) (Some (JArr (map JStr xs))) = Some (Some xs)"
  by (simp add: opt_array_def those_list_map_Some req_string_def)

lemma opt_array_log:
  "opt_array as_LogEntry (Some (JArr (map LogEntry_json es))) = Some (Some es)"
  by (simp add: opt_array_def those_list_map_Some as_LogEntry_LogEntry_json)

lemma opt_absent [simp]: "opt_array f None = Some None" "opt_string None = Some None"
  by (simp_all add: opt_array_def opt_string_def)

lemma opt_string_JStr [simp]: "opt_string (Some (JStr s)) = Some (Some s)"
  by (simp add: opt_string_def)

lemma req_simps [simp]: "req_string (Some (JStr s)) = Some s" "req_int (Some (JNum n)) = Some n"
  by (simp_all add: req_string_def req_int_def)

lemma as_WorkItem_WorkItem_json: "as_WorkItem (WorkItem_json i) = Some i"
proof -
  have "as_WorkItem (WorkItem_json i) =
          Some \<lparr>wid = wid i, title = title i, status = status i, priority = priority i,
                wtype = wtype i, created = created i, updated = updated i,
                description = description i, blocked_by = blocked_by i, labels = labels i,
                closed_reason = closed_reason i, wlog = wlog i\<rparr>"
    unfolding as_WorkItem_def WorkItem_json_def get_prop_def
    by (cases "description i"; cases "blocked_by i"; cases "labels i"; cases "closed_reason i";
        cases "wlog i")
      (simp_all add: opt_prop_def opt_array_strings opt_array_log)
  then show ?thesis by simp
qed

section \<open>The interchange text\<close>

lemma set_join: "set (join sep xs) \<subseteq> set sep \<union> (\<Union>x\<in>set xs. set x)"
  by (induction sep xs rule: join.induct) auto

lemma hex_char_not_newline: "d < 16 \<Longrightarrow> hex_char d \<noteq> newline"
  by (auto simp: hex_char_def newline_def char_of_eq_iff take_bit_eq_mod)

lemma newline_notin_quote_char: "newline \<notin> set (quote_char c)"
proof -
  have "hex_char (of_char c div 16) \<noteq> newline" if "(of_char c :: nat) < 32"
    using that by (intro hex_char_not_newline) simp
  moreover have "hex_char (of_char c mod 16) \<noteq> newline"
    by (intro hex_char_not_newline) simp
  ultimately show ?thesis
    by (auto simp: quote_char_def newline_def dquote_def backslash_def)
qed

lemma newline_notin_quote: "newline \<notin> set (quote s)"
  using newline_notin_quote_char by (auto simp: quote_def newline_def dquote_def)

lemma newline_notin_String_of: "newline \<notin> set (String_of n)"
proof -
  have "c \<noteq> newline" if "c \<in> set (dec_digits k)" for c k
    using dec_digits_all_digits [OF that] by (auto simp: is_digit_def newline_def)
  then show ?thesis
    by (auto simp: String_of_def newline_def)
qed

lemma newline_notin_JSON_stringify: "newline \<notin> set (JSON_stringify v)"
proof (induction v)
  case (JArr vs)
  have "set (join '','' (map JSON_stringify vs)) \<subseteq> set '','' \<union> (\<Union>x\<in>set (map JSON_stringify vs). set x)"
    by (rule set_join)
  with JArr show ?case
    by (auto simp: newline_def)
next
  case (JObj kvs)
  have "set (join '','' (map member_text kvs)) \<subseteq> set '','' \<union> (\<Union>x\<in>set (map member_text kvs). set x)"
    by (rule set_join)
  moreover have "newline \<notin> set (member_text kv)" if "kv \<in> set kvs" for kv
    using JObj [of kv "snd kv"] that newline_notin_quote [of "fst kv"]
    by (cases kv) (auto simp: member_text_def newline_def)
  ultimately show ?case
    unfolding JSON_stringify_JObj by (auto simp: newline_def)
qed (auto simp: newline_notin_quote newline_notin_String_of, auto simp: newline_def)

lemma split_on_no_sep: "c \<notin> set l \<Longrightarrow> split_on c l = [l]"
  by (induction l) auto

lemma split_on_append: "c \<notin> set l \<Longrightarrow> split_on c (l @ c # rest) = l # split_on c rest"
  by (induction l) auto

lemma split_on_join:
  "ls \<noteq> [] \<Longrightarrow> \<forall>l\<in>set ls. c \<notin> set l \<Longrightarrow> split_on c (join [c] ls) = ls"
  by (induction "[c]" ls rule: join.induct) (simp_all add: split_on_no_sep split_on_append)

lemma line_of_shape: "\<exists>u. line_of i = CHR ''{'' # u @ [CHR ''}'']"
  unfolding line_of_def WorkItem_json_def JSON_stringify_JObj by simp

lemma join_lines_shape:
  assumes "items \<noteq> []"
  shows "\<exists>u. join [newline] (map line_of items) = CHR ''{'' # u @ [CHR ''}'']"
  using assms
proof (induction items)
  case Nil
  then show ?case by simp
next
  case (Cons i items)
  obtain u where u: "line_of i = CHR ''{'' # u @ [CHR ''}'']"
    using line_of_shape by blast
  show ?case
  proof (cases items)
    case Nil
    then show ?thesis using u by simp
  next
    case more: (Cons j js)
    then obtain w where w: "join [newline] (map line_of items) = CHR ''{'' # w @ [CHR ''}'']"
      using Cons.IH by auto
    have "join [newline] (map line_of (i # items)) =
            CHR ''{'' # (u @ [CHR ''}''] @ [newline] @ CHR ''{'' # w) @ [CHR ''}'']"
      using u w more by simp
    then show ?thesis by blast
  qed
qed

lemma trim_framed:
  "trim (CHR ''{'' # u @ [CHR ''}''] @ [newline]) = CHR ''{'' # u @ [CHR ''}'']"
  by (simp add: trim_def is_space_def newline_def)

lemma decode_jsonl_jsonl_of: "decode_jsonl (jsonl_of items) = Inr items"
proof (cases "items = []")
  case True
  then show ?thesis
    by (simp add: decode_jsonl_def jsonl_of_def trim_def)
next
  case False
  let ?content = "join [newline] (map line_of items)"
  obtain u where u: "?content = CHR ''{'' # u @ [CHR ''}'']"
    using join_lines_shape [OF False] by blast
  have raw: "jsonl_of items = ?content @ [newline]"
    using u by (simp add: jsonl_of_def line_of_def [abs_def])
  have tr: "trim (jsonl_of items) = ?content"
    unfolding raw u using trim_framed [of u] by simp
  have lines: "split_on newline ?content = map line_of items"
    using False by (intro split_on_join) (auto simp: line_of_def newline_notin_JSON_stringify)
  have objs: "those_list (map JSON_parse (map line_of items)) = Some (map WorkItem_json items)"
    by (induction items) (simp_all add: line_of_def JSON_parse_JSON_stringify)
  have typed: "those_list (map as_WorkItem (map WorkItem_json items)) = Some items"
    by (induction items) (simp_all add: as_WorkItem_WorkItem_json)
  have "parse_lines ?content = Inr items"
    by (simp add: parse_lines_def lines objs typed del: map_map)
  then show ?thesis
    using u by (simp add: decode_jsonl_def tr)
qed

text \<open>
  Claim C1.  For every sequence of work items, decoding the text that the export writes for
  them gives the same items, field for field and in the same order.  No items are written
  as the empty text, and the empty text decodes to no items.
\<close>

theorem jsonl_round_trip:
  "decode_jsonl (jsonl_of items) = Inr items \<and> jsonl_of [] = [] \<and> decode_jsonl [] = Inr []"
  by (simp add: decode_jsonl_jsonl_of) (simp add: jsonl_of_def decode_jsonl_def trim_def)

section \<open>Identifiers\<close>












lemma table_exportToJsonl [simp]: "table (exportToJsonl s) = table s"
  by (simp add: exportToJsonl_def Let_def)
















section \<open>Rows and readiness\<close>

lemma select_by_id_Some:
  "select_by_id tbl i = Some row \<Longrightarrow> row \<in> set tbl \<and> row_id row = i"
  unfolding select_by_id_def by (induction tbl) (auto split: if_splits)

lemma select_by_id_None:
  "(select_by_id tbl i = None) = (i \<notin> row_id ` set tbl)"
  unfolding select_by_id_def by (induction tbl) auto

lemma select_update_by_id:
  assumes "select_by_id tbl i = Some row" and "row_id (f row) = i"
  shows "select_by_id (update_by_id i f tbl) i = Some (f row)"
  using assms unfolding select_by_id_def update_by_id_def
  by (induction tbl) (auto split: if_splits)

lemma mem_closedIds:
  "(b \<in> closedIds tbl) = (\<exists>c\<in>set tbl. row_id c = b \<and> row_status c = ''closed'')"
  unfolding closedIds_def by auto

lemma set_order_by_priority_id [simp]: "set (order_by_priority_id rows) = set rows"
  by (simp add: order_by_priority_id_def)

lemma blockers_rowToWorkItem:
  "blockers (rowToWorkItem r) = (case row_blocked_by r of None \<Rightarrow> [] | Some bs \<Rightarrow> bs)"
  by (simp add: blockers_def rowToWorkItem_def)

lemma no_blockers_iff: "no_blockers item = (blockers item = [])"
  by (simp add: no_blockers_def blockers_def split: option.splits)

lemma mem_ready_items:
  "(item \<in> set (ready_items tbl)) =
     ((\<exists>r\<in>set tbl. row_status r \<noteq> ''closed'' \<and> rowToWorkItem r = item) \<and>
      (\<forall>b\<in>set (blockers item). b \<in> closedIds tbl))"
  unfolding ready_items_def Let_def
  by (auto simp: no_blockers_iff list_all_iff)

lemma mem_blocked_items:
  "((item, open_blockers) \<in> set (blocked_items tbl)) =
     ((\<exists>r\<in>set tbl. row_status r \<noteq> ''closed'' \<and> row_blocked_by r \<noteq> None \<and> rowToWorkItem r = item) \<and>
      (\<exists>b\<in>set (blockers item). b \<notin> closedIds tbl) \<and>
      open_blockers = filter (\<lambda>b. b \<notin> closedIds tbl) (blockers item))"
  unfolding blocked_items_def Let_def
  by (auto simp: no_blockers_iff list_ex_iff)

text \<open>
  Claim C3.  For every table and every row of it that is not closed: the item is among
  the ready items exactly when its \<open>blocked_by\<close> is absent or empty or every identifier in
  it is that of a closed row; it is among the blocked items exactly when \<open>blocked_by\<close> is
  not empty and some identifier in it is not that of a closed row; the blockers reported
  with it are exactly those of its blockers that are not closed; and a blocker that no
  row of the table carries keeps the item out of the ready items.
\<close>

theorem ready_and_blocked_follow_blockers:
  assumes "r \<in> set tbl" and "row_status r \<noteq> ''closed''"
  shows "((rowToWorkItem r \<in> set (ready_items tbl)) =
            (blocked_by (rowToWorkItem r) = None \<or> blocked_by (rowToWorkItem r) = Some [] \<or>
             (\<forall>b\<in>set (blockers (rowToWorkItem r)).
                \<exists>c\<in>set tbl. row_id c = b \<and> row_status c = ''closed''))) \<and>
         ((\<exists>open_blockers. (rowToWorkItem r, open_blockers) \<in> set (blocked_items tbl)) =
            (blockers (rowToWorkItem r) \<noteq> [] \<and>
             (\<exists>b\<in>set (blockers (rowToWorkItem r)).
                \<not> (\<exists>c\<in>set tbl. row_id c = b \<and> row_status c = ''closed'')))) \<and>
         (\<forall>open_blockers. (rowToWorkItem r, open_blockers) \<in> set (blocked_items tbl) \<longrightarrow>
            open_blockers =
              filter (\<lambda>b. \<not> (\<exists>c\<in>set tbl. row_id c = b \<and> row_status c = ''closed''))
                (blockers (rowToWorkItem r))) \<and>
         (\<forall>b\<in>set (blockers (rowToWorkItem r)).
            b \<notin> row_id ` set tbl \<longrightarrow> rowToWorkItem r \<notin> set (ready_items tbl))"
proof (intro conjI)
  let ?item = "rowToWorkItem r"
  have here: "\<exists>r'\<in>set tbl. row_status r' \<noteq> ''closed'' \<and> rowToWorkItem r' = ?item"
    using assms by blast
  show "(?item \<in> set (ready_items tbl)) =
          (blocked_by ?item = None \<or> blocked_by ?item = Some [] \<or>
           (\<forall>b\<in>set (blockers ?item). \<exists>c\<in>set tbl. row_id c = b \<and> row_status c = ''closed''))"
    using here by (auto simp: mem_ready_items mem_closedIds blockers_def split: option.splits)
  have nonnull: "blockers ?item \<noteq> [] \<Longrightarrow> row_blocked_by r \<noteq> None"
    by (auto simp: blockers_rowToWorkItem split: option.splits)
  show "(\<exists>open_blockers. (?item, open_blockers) \<in> set (blocked_items tbl)) =
          (blockers ?item \<noteq> [] \<and>
           (\<exists>b\<in>set (blockers ?item). \<not> (\<exists>c\<in>set tbl. row_id c = b \<and> row_status c = ''closed'')))"
  proof
    assume "\<exists>open_blockers. (?item, open_blockers) \<in> set (blocked_items tbl)"
    then show "blockers ?item \<noteq> [] \<and>
           (\<exists>b\<in>set (blockers ?item). \<not> (\<exists>c\<in>set tbl. row_id c = b \<and> row_status c = ''closed''))"
      by (auto simp: mem_blocked_items mem_closedIds)
  next
    assume a: "blockers ?item \<noteq> [] \<and>
           (\<exists>b\<in>set (blockers ?item). \<not> (\<exists>c\<in>set tbl. row_id c = b \<and> row_status c = ''closed''))"
    then have "row_blocked_by r \<noteq> None" using nonnull by blast
    with assms have "\<exists>r'\<in>set tbl. row_status r' \<noteq> ''closed'' \<and> row_blocked_by r' \<noteq> None \<and> rowToWorkItem r' = ?item"
      by blast
    with a show "\<exists>open_blockers. (?item, open_blockers) \<in> set (blocked_items tbl)"
      unfolding mem_blocked_items mem_closedIds by blast
  qed
  show "\<forall>open_blockers. (?item, open_blockers) \<in> set (blocked_items tbl) \<longrightarrow>
          open_blockers =
            filter (\<lambda>b. \<not> (\<exists>c\<in>set tbl. row_id c = b \<and> row_status c = ''closed'')) (blockers ?item)"
    by (simp add: mem_blocked_items mem_closedIds)
  show "\<forall>b\<in>set (blockers ?item). b \<notin> row_id ` set tbl \<longrightarrow> ?item \<notin> set (ready_items tbl)"
    unfolding mem_ready_items mem_closedIds by (metis imageI)
qed

theorem ready_and_blocked_follow_blockers_witness:
  "(example_row ''002'' ''open'' 2 ''task'')\<lparr>row_blocked_by := Some [''001'']\<rparr> \<in> set example_table \<and>
   row_status ((example_row ''002'' ''open'' 2 ''task'')\<lparr>row_blocked_by := Some [''001'']\<rparr>) \<noteq> ''closed'' \<and>
   rowToWorkItem ((example_row ''002'' ''open'' 2 ''task'')\<lparr>row_blocked_by := Some [''001'']\<rparr>)
     \<notin> set (ready_items example_table) \<and>
   (\<exists>open_blockers.
      (rowToWorkItem ((example_row ''002'' ''open'' 2 ''task'')\<lparr>row_blocked_by := Some [''001'']\<rparr>),
       open_blockers) \<in> set (blocked_items example_table))"
proof -
  let ?r = "(example_row ''002'' ''open'' 2 ''task'')\<lparr>row_blocked_by := Some [''001'']\<rparr>"
  have m: "?r \<in> set example_table"
    by (simp add: example_table_def)
  have st: "row_status ?r \<noteq> ''closed''"
    by (simp add: example_row_def)
  have bl: "blockers (rowToWorkItem ?r) = [''001'']" "blocked_by (rowToWorkItem ?r) = Some [''001'']"
    by (simp_all add: blockers_def rowToWorkItem_def)
  have open1: "\<not> (\<exists>c\<in>set example_table. row_id c = ''001'' \<and> row_status c = ''closed'')"
    by (simp add: example_table_def example_row_def)
  show ?thesis
    using ready_and_blocked_follow_blockers [OF m st] m st open1
    by (simp add: bl)
qed

section \<open>Export after a mutation\<close>

lemma consistent_exportToJsonl: "consistent (exportToJsonl s)"
  by (simp add: consistent_def exportToJsonl_def Let_def decode_jsonl_jsonl_of)

lemma cmd_add_exports:
  "cmd_add now args s = (Inr n, s') \<Longrightarrow> \<not> changes_nothing n \<and> consistent s'"
  by (auto simp: cmd_add_def Let_def consistent_exportToJsonl changes_nothing_def
      split: option.splits if_splits)

lemma cmd_start_exports:
  "cmd_start now args s = (Inr n, s') \<Longrightarrow> \<not> changes_nothing n \<and> consistent s'"
  by (auto simp: cmd_start_def consistent_exportToJsonl changes_nothing_def
      split: option.splits if_splits)

lemma cmd_close_exports:
  "cmd_close now args s = (Inr n, s') \<Longrightarrow> \<not> changes_nothing n \<and> consistent s'"
  by (auto simp: cmd_close_def Let_def consistent_exportToJsonl changes_nothing_def
      split: option.splits if_splits)

lemma cmd_reopen_exports:
  "cmd_reopen now args s = (Inr n, s') \<Longrightarrow> \<not> changes_nothing n \<and> consistent s'"
  by (auto simp: cmd_reopen_def consistent_exportToJsonl changes_nothing_def
      split: option.splits if_splits)

lemma cmd_edit_exports:
  "cmd_edit now args s = (Inr n, s') \<Longrightarrow> \<not> changes_nothing n \<and> consistent s'"
  by (auto simp: cmd_edit_def Let_def consistent_exportToJsonl changes_nothing_def
      split: option.splits if_splits)

lemma cmd_log_exports:
  "cmd_log now args s = (Inr n, s') \<Longrightarrow> \<not> changes_nothing n \<and> consistent s'"
  by (auto simp: cmd_log_def Let_def consistent_exportToJsonl changes_nothing_def
      split: option.splits if_splits)

lemma cmd_block_exports:
  "cmd_block now args s = (Inr n, s') \<Longrightarrow>
   (if changes_nothing n then s' = s else consistent s')"
  by (auto simp: cmd_block_def Let_def consistent_exportToJsonl changes_nothing_def
      split: option.splits if_splits)

lemma cmd_unblock_exports:
  "cmd_unblock now args s = (Inr n, s') \<Longrightarrow>
   (if changes_nothing n then s' = s else consistent s')"
  by (auto simp: cmd_unblock_def Let_def consistent_exportToJsonl changes_nothing_def
      split: option.splits if_splits)

lemma cmd_import_keeps_file: "work_jsonl (snd (cmd_import s)) = work_jsonl s"
  by (auto simp: cmd_import_def Let_def split: option.splits sum.splits prod.splits)

text \<open>
  Claim C2 names \<open>import\<close> among the commands after which the interchange file decodes to
  the table in the order of the identifiers.  It fails there: \<open>import\<close> does not write the
  file.  With item 002 before item 001 in the file, the import succeeds, the file still
  decodes to 002 and then 001, and the table in the order of the identifiers is 001 and
  then 002.
\<close>

theorem import_out_of_order_inconsistent:
  "run ''2025-01-05'' [''import''] out_of_order_state =
     (Inr (Imported 2),
      \<lparr>table = [example_row ''002'' ''open'' 2 ''task'', example_row ''001'' ''open'' 2 ''task''],
       work_jsonl = Some out_of_order_jsonl\<rparr>) \<and>
   decode_jsonl out_of_order_jsonl =
     Inr (map rowToWorkItem [example_row ''002'' ''open'' 2 ''task'', example_row ''001'' ''open'' 2 ''task'']) \<and>
   map rowToWorkItem (order_by_id (table (snd (run ''2025-01-05'' [''import''] out_of_order_state)))) =
     map rowToWorkItem [example_row ''001'' ''open'' 2 ''task'', example_row ''002'' ''open'' 2 ''task''] \<and>
   \<not> consistent (snd (run ''2025-01-05'' [''import''] out_of_order_state))"
  by code_simp

text \<open>
  Claim C2, amended.  After a successful \<open>add\<close>, \<open>start\<close>, \<open>close\<close>, \<open>reopen\<close>, \<open>edit\<close> or \<open>log\<close>,
  and after a successful \<open>block\<close> or \<open>unblock\<close> that changes the table, the interchange file
  decodes to the items of the table in the order of their numeric identifiers; a \<open>block\<close>
  or \<open>unblock\<close> that finds nothing to do leaves the state as it was.  \<open>import\<close> leaves the
  interchange file as it found it.
\<close>

theorem mutation_then_export_consistent:
  "(run now (''add'' # args) s = (Inr n, s') \<longrightarrow> consistent s') \<and>
   (run now (''start'' # args) s = (Inr n, s') \<longrightarrow> consistent s') \<and>
   (run now (''close'' # args) s = (Inr n, s') \<longrightarrow> consistent s') \<and>
   (run now (''reopen'' # args) s = (Inr n, s') \<longrightarrow> consistent s') \<and>
   (run now (''edit'' # args) s = (Inr n, s') \<longrightarrow> consistent s') \<and>
   (run now (''log'' # args) s = (Inr n, s') \<longrightarrow> consistent s') \<and>
   (run now (''block'' # args) s = (Inr n, s') \<longrightarrow>
      (if changes_nothing n then s' = s else consistent s')) \<and>
   (run now (''unblock'' # args) s = (Inr n, s') \<longrightarrow>
      (if changes_nothing n then s' = s else consistent s')) \<and>
   work_jsonl (snd (run now (''import'' # args) s)) = work_jsonl s"
proof (intro conjI impI)
  show "consistent s'" if "run now (''add'' # args) s = (Inr n, s')"
    using that cmd_add_exports [of now args s n s'] by (simp add: run_def)
  show "consistent s'" if "run now (''start'' # args) s = (Inr n, s')"
    using that cmd_start_exports [of now args s n s'] by (simp add: run_def)
  show "consistent s'" if "run now (''close'' # args) s = (Inr n, s')"
    using that cmd_close_exports [of now args s n s'] by (simp add: run_def)
  show "consistent s'" if "run now (''reopen'' # args) s = (Inr n, s')"
    using that cmd_reopen_exports [of now args s n s'] by (simp add: run_def)
  show "consistent s'" if "run now (''edit'' # args) s = (Inr n, s')"
    using that cmd_edit_exports [of now args s n s'] by (simp add: run_def)
  show "consistent s'" if "run now (''log'' # args) s = (Inr n, s')"
    using that cmd_log_exports [of now args s n s'] by (simp add: run_def)
  show "if changes_nothing n then s' = s else consistent s'"
    if "run now (''block'' # args) s = (Inr n, s')"
    using that cmd_block_exports [of now args s n s'] by (simp add: run_def)
  show "if changes_nothing n then s' = s else consistent s'"
    if "run now (''unblock'' # args) s = (Inr n, s')"
    using that cmd_unblock_exports [of now args s n s'] by (simp add: run_def)
  show "work_jsonl (snd (run now (''import'' # args) s)) = work_jsonl s"
    by (simp add: run_def cmd_import_keeps_file)
qed

theorem mutation_then_export_consistent_witness:
  "run ''2025-01-05'' [''close'', ''1''] example_state =
     (Inr (Closed ''001'' ''Task''), snd (run ''2025-01-05'' [''close'', ''1''] example_state)) \<and>
   consistent (snd (run ''2025-01-05'' [''close'', ''1''] example_state))"
proof -
  have "fst (run ''2025-01-05'' [''close'', ''1''] example_state) = Inr (Closed ''001'' ''Task'')"
    by code_simp
  then have r: "run ''2025-01-05'' [''close'', ''1''] example_state =
     (Inr (Closed ''001'' ''Task''), snd (run ''2025-01-05'' [''close'', ''1''] example_state))"
    by (simp add: prod_eq_iff)
  have "consistent (snd (run ''2025-01-05'' [''close'', ''1''] example_state))"
    using mutation_then_export_consistent
      [of "''2025-01-05''" "[''1'']" example_state "Closed ''001'' ''Task''"
         "snd (run ''2025-01-05'' [''close'', ''1''] example_state)"] r
    by blast
  with r show ?thesis
    by (rule conjI)
qed

section \<open>Import\<close>



text \<open>
  Claim C5 says that an empty or absent interchange file leaves an empty store and is not
  an error.  With four rows in the table, \<open>import\<close> on an empty file reports that there is
  nothing to import and leaves the four rows; on an absent file it fails.
\<close>

theorem import_blank_or_absent_keeps_store:
  "cmd_import blank_file_state = (Inr NoItemsToImport, blank_file_state) \<and>
   table blank_file_state \<noteq> [] \<and>
   cmd_import absent_file_state = (Inl NoJsonlFileError, absent_file_state)"
  by (simp add: cmd_import_def blank_file_state_def absent_file_state_def trim_def example_table_def)

text \<open>
  Claim C5, amended.  When the interchange file is absent, \<open>import\<close> fails and leaves the
  state as it was.  When the file is empty or holds white space only, \<open>import\<close> reports that
  there is nothing to import, which is not an error, and leaves the state, the table
  included, as it was.
\<close>

theorem import_nothing_to_import:
  "(work_jsonl s = None \<longrightarrow> cmd_import s = (Inl NoJsonlFileError, s)) \<and>
   (\<forall>raw. work_jsonl s = Some raw \<and> trim raw = [] \<longrightarrow> cmd_import s = (Inr NoItemsToImport, s))"
  by (simp add: cmd_import_def)

theorem import_nothing_to_import_witness:
  "work_jsonl absent_file_state = None \<and>
   cmd_import absent_file_state = (Inl NoJsonlFileError, absent_file_state) \<and>
   work_jsonl (blank_file_state\<lparr>work_jsonl := Some [CHR '' '', newline]\<rparr>) = Some [CHR '' '', newline] \<and>
   trim [CHR '' '', newline] = [] \<and>
   cmd_import (blank_file_state\<lparr>work_jsonl := Some [CHR '' '', newline]\<rparr>) =
     (Inr NoItemsToImport, blank_file_state\<lparr>work_jsonl := Some [CHR '' '', newline]\<rparr>)"
proof -
  have t: "trim [CHR '' '', newline] = []"
    by (simp add: trim_def is_space_def newline_def)
  have a: "work_jsonl absent_file_state = None"
    by (simp add: absent_file_state_def)
  show ?thesis
    using import_nothing_to_import [of absent_file_state]
      import_nothing_to_import [of "blank_file_state\<lparr>work_jsonl := Some [CHR '' '', newline]\<rparr>"] t a
    by simp
qed




section \<open>Listing, editing and the command surface\<close>

lemma list_rows_selection:
  "set (list_rows args tbl) =
     (if truthy (flag_value ''--status='' args)
      then {r \<in> set tbl. Some (row_status r) = flag_value ''--status='' args}
      else {r \<in> set tbl. row_status r \<noteq> ''closed''})"
  by (simp add: list_rows_def Let_def)

lemma list_rows_order:
  "sorted (map (\<lambda>r. (row_priority r, cast_integer (row_id r))) (list_rows args tbl))"
  by (simp add: list_rows_def Let_def order_by_priority_id_def)

text \<open>
  Claim C6.  \<open>list\<close> reads the flag \<^verbatim>\<open>--status=\<close> only.  Asked for the items of type
  \<^verbatim>\<open>feature\<close>, it lists every item that is not closed, whatever its type: the filters by
  type, author, assignee and label that the claim describes are not applied.
\<close>

theorem list_ignores_type_filter:
  "fst (cmd_list [''--type=feature''] example_state) =
     Inr (Listing (map rowToWorkItem
       [example_row ''003'' ''open'' 0 ''feature'',
        example_row ''001'' ''open'' 2 ''task'',
        (example_row ''002'' ''open'' 2 ''task'')\<lparr>row_blocked_by := Some [''001'']\<rparr>]))"
  by code_simp

text \<open>
  Claim C7.  \<open>edit\<close> accepts the fields title, priority, type and description.  On an
  existing item it refuses the fields author and assignee as unknown and changes nothing,
  where the claim says the edit succeeds.
\<close>

theorem edit_author_unknown_field:
  "cmd_edit now [''001'', ''author'', ''new-author''] example_state =
     (Inl (UnknownFieldError ''author''), example_state) \<and>
   cmd_edit now [''001'', ''assignee'', ''new-assignee''] example_state =
     (Inl (UnknownFieldError ''assignee''), example_state)"
proof -
  have pad: "padId ''001'' = ''001''"
    by code_simp
  show ?thesis
    unfolding cmd_edit_def
    by (simp add: pad arg0_def arg1_def example_state_def example_table_def example_row_def
        select_by_id_def validFields_def)
qed

text \<open>
  Claim C8.  The words label, unlabel, labels, claim, unclaim and mine are not commands:
  whatever the arguments and the state, the program rejects each as an unknown command
  and changes nothing, where the claim says they are part of the command surface.
\<close>

theorem label_claim_commands_unknown:
  "run now (''label'' # args) s = (Inl (UnknownCommandError ''label''), s) \<and>
   run now (''unlabel'' # args) s = (Inl (UnknownCommandError ''unlabel''), s) \<and>
   run now (''labels'' # args) s = (Inl (UnknownCommandError ''labels''), s) \<and>
   run now (''claim'' # args) s = (Inl (UnknownCommandError ''claim''), s) \<and>
   run now (''unclaim'' # args) s = (Inl (UnknownCommandError ''unclaim''), s) \<and>
   run now (''mine'' # args) s = (Inl (UnknownCommandError ''mine''), s)"
  by (simp add: run_def)

section \<open>Closing\<close>

text \<open>
  Claim C10.  For an item present in the table, whatever its status, \<open>close\<close> succeeds and
  leaves the row closed with \<open>closed_reason\<close> set to the reason arguments joined by spaces
  when there are any and to \<^verbatim>\<open>NULL\<close> when there are none, so that closing without a reason
  erases a reason stored before.
\<close>

theorem close_overwrites_closed_reason:
  assumes "i \<noteq> []" and "select_by_id (table s) (padId i) = Some row"
  shows "fst (cmd_close now (i # reason) s) = Inr (Closed (padId i) (row_title row)) \<and>
         select_by_id (table (snd (cmd_close now (i # reason) s))) (padId i) =
           Some (row\<lparr>row_status := ''closed'', row_updated := now,
                     row_closed_reason := (if reason = [] then None else Some (join '' '' reason))\<rparr>)"
proof -
  have idr: "row_id row = padId i"
    using assms(2) by (simp add: select_by_id_Some)
  let ?f = "\<lambda>r. r\<lparr>row_status := ''closed'', row_updated := now,
                     row_closed_reason := (if reason = [] then None else Some (join '' '' reason))\<rparr>"
  have upd: "select_by_id (update_by_id (padId i) ?f (table s)) (padId i) = Some (?f row)"
    by (rule select_update_by_id [OF assms(2)]) (simp add: idr)
  have len: "(1 < length (i # reason)) = (reason \<noteq> [])"
    by (cases reason) simp_all
  show ?thesis
    using assms upd unfolding cmd_close_def arg0_def Let_def len
    by (cases "reason = []") simp_all
qed

theorem close_overwrites_closed_reason_witness:
  "''4'' \<noteq> [] \<and>
   select_by_id (table example_state) (padId ''4'') =
     Some ((example_row ''004'' ''closed'' 2 ''task'')\<lparr>row_closed_reason := Some ''Done''\<rparr>) \<and>
   fst (cmd_close ''2025-01-05'' [''4''] example_state) = Inr (Closed ''004'' ''Task'') \<and>
   select_by_id (table (snd (cmd_close ''2025-01-05'' [''4''] example_state))) ''004'' =
     Some ((example_row ''004'' ''closed'' 2 ''task'')\<lparr>row_updated := ''2025-01-05''\<rparr>)"
proof -
  have pad: "padId ''4'' = ''004''"
    by code_simp
  have sel: "select_by_id (table example_state) (padId ''4'') =
     Some ((example_row ''004'' ''closed'' 2 ''task'')\<lparr>row_closed_reason := Some ''Done''\<rparr>)"
    unfolding pad
    by (simp add: example_state_def example_table_def example_row_def select_by_id_def)
  show ?thesis
    using close_overwrites_closed_reason [OF _ sel, of "''2025-01-05''" "[]"] sel
    by (simp add: pad example_row_def)
qed

end
